theory Spec2Isabelle
  imports Complex_Main "HOL-Library.AList"
begin

section \<open>Conventions of the embedding\<close>

text \<open>
  The program is JavaScript. Its numbers are IEEE doubles; the embedding uses exact
  arithmetic instead: \<open>nat\<close> for the engagement counters (the CRM layer produces them as
  counts of engagement objects, \<open>x.total || 0\<close>), \<open>int\<close> for scores and time stamps in
  milliseconds, \<open>rat\<close> wherever the source multiplies by a decimal weight or divides.
  \<open>Math.round\<close> rounds a half towards plus infinity, which is \<open>round\<close> of HOL
  (\<open>round x = \<lfloor>x + 1/2\<rfloor>\<close>); \<open>Math.floor\<close> is \<open>\<lfloor>_\<rfloor>\<close>, on integers \<open>div\<close>.
  A property that is \<open>undefined\<close> or \<open>null\<close> is \<open>None\<close>; \<open>a || b\<close> takes \<open>b\<close> when
  \<open>a\<close> is falsy (missing, the empty string, the number zero).
\<close>

definition orString :: "string option \<Rightarrow> string \<Rightarrow> string" where
  "orString a b = (case a of None \<Rightarrow> b | Some s \<Rightarrow> if s = [] then b else s)"

definition orNat :: "nat option \<Rightarrow> nat \<Rightarrow> nat" where
  "orNat a b = (case a of None \<Rightarrow> b | Some n \<Rightarrow> if n = 0 then b else n)"

definition orInt :: "int option \<Rightarrow> int \<Rightarrow> int" where
  "orInt a b = (case a of None \<Rightarrow> b | Some n \<Rightarrow> if n = 0 then b else n)"

text \<open>A destructuring default \<open>{ x = d }\<close> replaces a missing field only.\<close>

definition withDefault :: "'a option \<Rightarrow> 'a \<Rightarrow> 'a" where
  "withDefault a d = (case a of None \<Rightarrow> d | Some v \<Rightarrow> v)"

text \<open>\<open>String.prototype.toUpperCase\<close> and \<open>toLowerCase\<close> on the ASCII letters.\<close>

definition toUpperChar :: "char \<Rightarrow> char" where
  "toUpperChar c =
     (case map_of (zip ''abcdefghijklmnopqrstuvwxyz'' ''ABCDEFGHIJKLMNOPQRSTUVWXYZ'') c of
        None \<Rightarrow> c | Some u \<Rightarrow> u)"

definition toLowerChar :: "char \<Rightarrow> char" where
  "toLowerChar c =
     (case map_of (zip ''ABCDEFGHIJKLMNOPQRSTUVWXYZ'' ''abcdefghijklmnopqrstuvwxyz'') c of
        None \<Rightarrow> c | Some l \<Rightarrow> l)"

definition toUpperCase :: "string \<Rightarrow> string" where
  "toUpperCase s = map toUpperChar s"

definition toLowerCase :: "string \<Rightarrow> string" where
  "toLowerCase s = map toLowerChar s"

section \<open>Scoring service\<close>

subsection \<open>Data\<close>

record engagements =
  emails :: "nat option"
  meetings :: "nat option"
  calls :: "nat option"
  totalCount :: "nat option"

text \<open>
  A contact as the scoring functions read it: \<open>id\<close>, the members of \<open>properties\<close>
  (a missing \<open>properties\<close> object is all of them missing) and \<open>engagements\<close>.
\<close>

record contact =
  cid :: "string option"
  firstname :: "string option"
  lastname :: "string option"
  email :: "string option"
  hs_buying_role :: "string option"
  jobtitle :: "string option"
  engagements :: "engagements option"

definition BUYING_ROLE_WEIGHTS :: "string \<Rightarrow> nat option" where
  "BUYING_ROLE_WEIGHTS = map_of
     [(''DECISION_MAKER'', 30), (''BUDGET_HOLDER'', 25), (''CHAMPION'', 20),
      (''INFLUENCER'', 15), (''END_USER'', 10), (''BLOCKER'', 5), (''OTHER'', 5)]"

definition KEY_ROLES :: "string list" where
  "KEY_ROLES = [''DECISION_MAKER'', ''BUDGET_HOLDER'', ''CHAMPION'']"

subsection \<open>calculateContactEngagementScore\<close>

definition calculateContactEngagementScore :: "engagements \<Rightarrow> nat" where
  "calculateContactEngagementScore e =
     (let emails' = withDefault (emails e) 0;
          meetings' = withDefault (meetings e) 0;
          calls' = withDefault (calls e) 0;
          meetingPoints = min (meetings' * 20) 40;
          callPoints = min (calls' * 15) 30;
          emailPoints = min (emails' * 5) 30
      in min (meetingPoints + callPoints + emailPoints) 100)"

subsection \<open>calculateParticipationScore\<close>

text \<open>\<open>contact.engagements?.total || 0\<close>\<close>

definition engagementTotal :: "contact \<Rightarrow> nat" where
  "engagementTotal c =
     (case engagements c of None \<Rightarrow> 0 | Some e \<Rightarrow> orNat (totalCount e) 0)"

definition calculateParticipationScore :: "contact list \<Rightarrow> int" where
  "calculateParticipationScore contacts =
     (if length contacts = 0 then 0
      else
        let activeContacts = filter (\<lambda>c. engagementTotal c \<ge> 2) contacts;
            participationRate = (of_nat (length activeContacts) :: rat) / of_nat (length contacts);
            rateScore = participationRate * 60;
            volumeBonus = min (length activeContacts * 10) 40
        in min (round (rateScore + of_nat volumeBonus)) 100)"

subsection \<open>calculateRoleCoverageScore\<close>

record roleCoverage =
  score :: int
  coveredRoles :: "string list"
  missingKeyRoles :: "string list"
  rolePoints :: nat

text \<open>\<open>contact.properties?.hs_buying_role?.toUpperCase() || 'OTHER'\<close>\<close>

definition contactRole :: "contact \<Rightarrow> string" where
  "contactRole c = orString (map_option toUpperCase (hs_buying_role c)) ''OTHER''"

text \<open>
  A \<open>Set\<close> keeps its members in the order of their first insertion, which is the order
  \<open>Array.from\<close> lists them in.
\<close>

definition setAdd :: "'a list \<Rightarrow> 'a \<Rightarrow> 'a list" where
  "setAdd s x = (if x \<in> set s then s else s @ [x])"

text \<open>
  The \<open>forEach\<close> loop, on the pair of \<open>coveredRoles\<close> and \<open>rolePoints\<close>. No member of
  \<open>Object.prototype\<close> has an upper-case name, so the lookup of an upper-cased role in the
  object literal \<open>BUYING_ROLE_WEIGHTS\<close> finds its own entries only.
\<close>

definition roleStep :: "string list \<times> nat \<Rightarrow> contact \<Rightarrow> string list \<times> nat" where
  "roleStep acc c =
     (let role = contactRole c
      in (setAdd (fst acc) role,
          snd acc + orNat (BUYING_ROLE_WEIGHTS role) (the (BUYING_ROLE_WEIGHTS ''OTHER''))))"

definition calculateRoleCoverageScore :: "contact list \<Rightarrow> roleCoverage" where
  "calculateRoleCoverageScore contacts =
     (let acc = foldl roleStep ([], 0) contacts;
          covered = fst acc;
          missing = filter (\<lambda>role. role \<notin> set covered) KEY_ROLES;
          keyCoverage =
            ((of_nat (length KEY_ROLES) - of_nat (length missing)) / of_nat (length KEY_ROLES)) * (100 :: rat);
          diversityBonus = min (length covered * 10) 30;
          finalScore = min (round (keyCoverage * 0.7 + of_nat diversityBonus)) 100
      in \<lparr> score = finalScore, coveredRoles = covered, missingKeyRoles = missing,
           rolePoints = snd acc \<rparr>)"

subsection \<open>calculateMultiThreadingScore\<close>

record contactEngagement =
  ce_contactId :: "string option"
  ce_name :: string
  ce_email :: string
  ce_role :: string
  ce_jobTitle :: string
  ce_engagementScore :: nat
  ce_engagements :: engagements

record scoreData =
  overallScore :: int
  engagementScore :: int
  participationScore :: int
  roleCoverageScore :: int
  contactCount :: nat
  threadDepth :: nat
  riskLevel :: string
  riskColor :: string
  sd_coveredRoles :: "string list"
  sd_missingKeyRoles :: "string list"
  sd_contacts :: "contactEngagement list"

text \<open>
  \<open>String.prototype.trim\<close> strips white space and line terminators; of the characters
  of one byte these are the space, tab, line feed, vertical tab, form feed, carriage
  return and the no-break space.
\<close>

definition isSpace :: "char \<Rightarrow> bool" where
  "isSpace c =
     (c \<in> set [CHR '' '', CHR 0x09, CHR 0x0A, CHR 0x0B, CHR 0x0C, CHR 0x0D, CHR 0xA0])"

definition trim :: "string \<Rightarrow> string" where
  "trim s = rev (dropWhile isSpace (rev (dropWhile isSpace s)))"

definition emptyEngagements :: engagements where
  "emptyEngagements = \<lparr> emails = None, meetings = None, calls = None, totalCount = None \<rparr>"

definition zeroEngagements :: engagements where
  "zeroEngagements = \<lparr> emails = Some 0, meetings = Some 0, calls = Some 0, totalCount = Some 0 \<rparr>"

definition contactEngagementEntry :: "contact \<Rightarrow> contactEngagement" where
  "contactEngagementEntry c =
     \<lparr> ce_contactId = cid c,
       ce_name =
         (let n = trim (orString (firstname c) [] @ '' '' @ orString (lastname c) [])
          in if n = [] then ''Unknown'' else n),
       ce_email = orString (email c) ''N/A'',
       ce_role = orString (hs_buying_role c) ''Not specified'',
       ce_jobTitle = orString (jobtitle c) ''Not specified'',
       ce_engagementScore =
         calculateContactEngagementScore (withDefault (engagements c) emptyEngagements),
       ce_engagements = withDefault (engagements c) zeroEngagements \<rparr>"

text \<open>The number of engaged stakeholders, \<open>(c.engagements?.total || 0) > 0\<close>.\<close>

definition countThreadDepth :: "contact list \<Rightarrow> nat" where
  "countThreadDepth contacts = length (filter (\<lambda>c. engagementTotal c > 0) contacts)"

definition avgEngagementScore :: "contactEngagement list \<Rightarrow> int" where
  "avgEngagementScore ces =
     (if length ces > 0
      then round ((of_nat (foldl (\<lambda>sum c. sum + ce_engagementScore c) 0 ces) :: rat)
                  / of_nat (length ces))
      else 0)"

text \<open>The argument is \<open>data.contacts\<close>; a missing member is the empty list.\<close>

definition calculateMultiThreadingScore :: "contact list option \<Rightarrow> scoreData" where
  "calculateMultiThreadingScore data =
     (let contacts = withDefault data [];
          contactEngagementScores = map contactEngagementEntry contacts;
          avg = avgEngagementScore contactEngagementScores;
          participation = calculateParticipationScore contacts;
          roleCov = calculateRoleCoverageScore contacts;
          depth = countThreadDepth contacts;
          threadDepthBonus = min (depth * 10) 10;
          overall = round ((of_int avg :: rat) * 0.30 + of_int participation * 0.25
                           + of_int (score roleCov) * 0.35 + of_nat threadDepthBonus);
          risk = (if overall \<ge> 70 then (''LOW'', ''#00a4bd'')
                  else if overall \<ge> 40 then (''MEDIUM'', ''#f5c26b'')
                  else (''HIGH'', ''#f2545b''))
      in \<lparr> overallScore = overall, engagementScore = avg, participationScore = participation,
           roleCoverageScore = score roleCov, contactCount = length contacts,
           threadDepth = depth, riskLevel = fst risk, riskColor = snd risk,
           sd_coveredRoles = coveredRoles roleCov, sd_missingKeyRoles = missingKeyRoles roleCov,
           sd_contacts = contactEngagementScores \<rparr>)"

section \<open>Lookup in an object literal\<close>

text \<open>
  The tables \<open>ALERT_CONFIGS\<close> and \<open>STAGE_VELOCITY_BENCHMARKS\<close> are object literals that
  the code indexes with a string from its caller, \<open>TABLE[key] || fallback\<close>. An object
  literal inherits from \<open>Object.prototype\<close>, so \<open>TABLE[key]\<close> is the table's own entry
  when there is one, a member of \<open>Object.prototype\<close> (a function, or the prototype object
  itself for \<open>__proto__\<close>) when \<open>key\<close> names one, and \<open>undefined\<close> otherwise. Every
  inherited member is truthy, so \<open>||\<close> keeps it, and reading a field of the table's
  entries from it gives \<open>undefined\<close>.
\<close>

datatype 'a property = Own 'a | Inherited | Undefined

definition objectPrototypeNames :: "string list" where
  "objectPrototypeNames =
     [''constructor'', ''__defineGetter__'', ''__defineSetter__'', ''hasOwnProperty'',
      ''__lookupGetter__'', ''__lookupSetter__'', ''isPrototypeOf'', ''propertyIsEnumerable'',
      ''toString'', ''valueOf'', ''__proto__'', ''toLocaleString'']"

definition getProperty :: "(string \<times> 'a) list \<Rightarrow> string \<Rightarrow> 'a property" where
  "getProperty obj key =
     (case map_of obj key of
        Some v \<Rightarrow> Own v
      | None \<Rightarrow> if key \<in> set objectPrototypeNames then Inherited else Undefined)"

section \<open>Alert service: throttling\<close>

record alertConfig =
  severity :: string
  color :: string
  throttleMinutes :: nat

text \<open>The titles of the configurations are display text and are left out.\<close>

definition ALERT_CONFIGS :: "(string \<times> alertConfig) list" where
  "ALERT_CONFIGS =
     [(''SINGLE_THREADED'', \<lparr> severity = ''HIGH'', color = ''#f2545b'', throttleMinutes = 1440 \<rparr>),
      (''NO_NEW_CONTACTS'', \<lparr> severity = ''MEDIUM'', color = ''#f5c26b'', throttleMinutes = 720 \<rparr>),
      (''CHAMPION_DISENGAGED'', \<lparr> severity = ''HIGH'', color = ''#f2545b'', throttleMinutes = 480 \<rparr>),
      (''DM_NOT_ENGAGED'', \<lparr> severity = ''HIGH'', color = ''#f2545b'', throttleMinutes = 720 \<rparr>),
      (''SCORE_DROPPED'', \<lparr> severity = ''MEDIUM'', color = ''#f5c26b'', throttleMinutes = 480 \<rparr>),
      (''COVERAGE_GAP'', \<lparr> severity = ''MEDIUM'', color = ''#f5c26b'', throttleMinutes = 1440 \<rparr>),
      (''STAKEHOLDER_INACTIVE'', \<lparr> severity = ''LOW'', color = ''#516f90'', throttleMinutes = 1440 \<rparr>)]"

text \<open>
  The module's state \<open>alertHistory\<close> is a \<open>Map\<close> from keys to the time of the last send,
  in milliseconds since the epoch. The functions take the state and the reading of
  \<open>Date.now()\<close> as arguments; \<open>recordAlertSent\<close> returns the new state.
\<close>

type_synonym alertHistory = "string \<rightharpoonup> int"

definition throttleKey :: "string \<Rightarrow> string \<Rightarrow> string" where
  "throttleKey dealId alertType = dealId @ ''-'' @ alertType"

text \<open>
  \<open>config.throttleMinutes * 60 * 1000\<close>; \<open>None\<close> is \<open>NaN\<close>, the product when the
  field is \<open>undefined\<close>. A comparison with \<open>NaN\<close> is false.
\<close>

definition throttleMs :: "string \<Rightarrow> int option" where
  "throttleMs alertType =
     (case getProperty ALERT_CONFIGS alertType of
        Own config \<Rightarrow> Some (int (throttleMinutes config) * 60 * 1000)
      | Inherited \<Rightarrow> None
      | Undefined \<Rightarrow> Some (60 * 60 * 1000))"

definition shouldThrottle :: "alertHistory \<Rightarrow> int \<Rightarrow> string \<Rightarrow> string \<Rightarrow> bool" where
  "shouldThrottle alertHistory now dealId alertType =
     (let key = throttleKey dealId alertType;
          lastSent = alertHistory key
      in if lastSent = None \<or> lastSent = Some 0 then False
         else case throttleMs alertType of
                None \<Rightarrow> False
              | Some ms \<Rightarrow> now - the lastSent < ms)"

definition recordAlertSent :: "alertHistory \<Rightarrow> int \<Rightarrow> string \<Rightarrow> string \<Rightarrow> alertHistory" where
  "recordAlertSent alertHistory now dealId alertType =
     alertHistory(throttleKey dealId alertType \<mapsto> now)"

definition clearAlertHistory :: alertHistory where
  "clearAlertHistory = Map.empty"

section \<open>Risk prediction service\<close>

subsection \<open>Numbers in template literals\<close>

definition digitChar :: "nat \<Rightarrow> char" where
  "digitChar n = ''0123456789'' ! (n mod 10)"

fun showNat :: "nat \<Rightarrow> string" where
  "showNat n = (if n < 10 then [digitChar n] else showNat (n div 10) @ [digitChar n])"

declare showNat.simps [simp del]

definition showInt :: "int \<Rightarrow> string" where
  "showInt i = (if i < 0 then CHR ''-'' # showNat (nat (- i)) else showNat (nat i))"

subsection \<open>predictChampionChurn\<close>

record indicator =
  weight :: nat
  threshold :: rat

text \<open>\<open>RISK_FACTORS.CHAMPION_CHURN_INDICATORS\<close>, one constant for each member.\<close>

definition lowResponseRate :: indicator where
  "lowResponseRate = \<lparr> weight = 25, threshold = 0.3 \<rparr>"

definition decreasingEngagement :: indicator where
  "decreasingEngagement = \<lparr> weight = 30, threshold = -20 \<rparr>"

definition missedMeetingsIndicator :: indicator where
  "missedMeetingsIndicator = \<lparr> weight = 20, threshold = 2 \<rparr>"

definition noRecentContact :: indicator where
  "noRecentContact = \<lparr> weight = 25, threshold = 14 \<rparr>"

text \<open>
  The champion as \<open>predictChampionChurn\<close> and \<open>calculateChampionStrength\<close> read it:
  \<open>engagements\<close>, \<open>engagementScore\<close>, \<open>properties.jobtitle\<close> and \<open>jobTitle\<close>.
\<close>

record champion =
  ch_engagements :: "engagements option"
  ch_engagementScore :: "int option"
  ch_jobtitle :: "string option"
  ch_jobTitle :: "string option"

record engagementHistory =
  responseRate :: "rat option"
  previousEngagementScore :: "int option"
  missedMeetings :: "int option"
  daysSinceLastContact :: "int option"

text \<open>
  A risk factor, without its display strings \<open>value\<close>, \<open>threshold\<close> and
  \<open>description\<close>.
\<close>

record riskFactor =
  factor :: string
  riskContribution :: nat

record churnAnalysis =
  churnRisk :: string
  riskScore :: nat
  confidence :: nat
  factors :: "riskFactor list"
  recommendation :: string

text \<open>Each of the four \<open>if\<close> statements, on the pair of \<open>factors\<close> and \<open>totalRiskScore\<close>.\<close>

definition addFactor :: "bool \<Rightarrow> string \<Rightarrow> indicator \<Rightarrow> riskFactor list \<times> nat \<Rightarrow> riskFactor list \<times> nat" where
  "addFactor cond name ind acc =
     (if cond
      then (fst acc @ [\<lparr> factor = name, riskContribution = weight ind \<rparr>], snd acc + weight ind)
      else acc)"

definition predictChampionChurn :: "champion option \<Rightarrow> engagementHistory \<Rightarrow> churnAnalysis" where
  "predictChampionChurn championOpt history =
     (case championOpt of
        None \<Rightarrow> \<lparr> churnRisk = ''UNKNOWN'', riskScore = 0, confidence = 0, factors = [],
                  recommendation = ''No champion identified'' \<rparr>
      | Some champion \<Rightarrow>
          let missed = withDefault (missedMeetings history) 0;
              acc1 = addFactor
                (case responseRate history of None \<Rightarrow> False
                 | Some rate \<Rightarrow> rate < threshold lowResponseRate)
                ''Low Response Rate'' lowResponseRate ([], 0);
              acc2 = addFactor
                (case previousEngagementScore history of None \<Rightarrow> False
                 | Some previous \<Rightarrow>
                     (let currentScore = orInt (ch_engagementScore champion) 0;
                          engagementChange = currentScore - previous
                      in of_int engagementChange < threshold decreasingEngagement))
                ''Decreasing Engagement'' decreasingEngagement acc1;
              acc3 = addFactor (of_int missed \<ge> threshold missedMeetingsIndicator)
                ''Missed Meetings'' missedMeetingsIndicator acc2;
              acc4 = addFactor
                (case daysSinceLastContact history of None \<Rightarrow> False
                 | Some days \<Rightarrow> of_int days \<ge> threshold noRecentContact)
                ''No Recent Contact'' noRecentContact acc3;
              totalRiskScore = snd acc4;
              risk = (if totalRiskScore \<ge> 60 then ''HIGH''
                      else if totalRiskScore \<ge> 30 then ''MEDIUM''
                      else if totalRiskScore > 0 then ''LOW''
                      else ''NONE'');
              rec = (if risk = ''HIGH'' then
                       ''Immediate action required: Schedule urgent check-in with champion and consider identifying backup champion''
                     else if risk = ''MEDIUM'' then
                       ''Schedule a champion check-in and review engagement strategy''
                     else if risk = ''LOW'' then
                       ''Monitor champion engagement and maintain regular communication''
                     else ''Champion relationship appears healthy'')
          in \<lparr> churnRisk = risk, riskScore = totalRiskScore,
               confidence = (if length (fst acc4) > 0 then min (length (fst acc4) * 25) 90 else 50),
               factors = fst acc4, recommendation = rec \<rparr>)"

subsection \<open>analyzeStageVelocity\<close>

text \<open>
  The member \<open>hs_date_entered_currentstage\<close> after the code's two tests: it is falsy
  (missing, \<open>null\<close>, empty), or \<open>new Date\<close> of it is invalid (\<open>getTime()\<close> is \<open>NaN\<close>), or it
  is a time in milliseconds since the epoch. Parsing the text of a date is the
  platform's.
\<close>

datatype dateField = NoDate | InvalidDate | ValidDate int

record deal =
  dealstage :: "string option"
  hs_date_entered_currentstage :: dateField

record benchmark =
  expectedDays :: int
  maxDays :: int

definition STAGE_VELOCITY_BENCHMARKS :: "(string \<times> benchmark) list" where
  "STAGE_VELOCITY_BENCHMARKS =
     [(''appointmentscheduled'', \<lparr> expectedDays = 14, maxDays = 30 \<rparr>),
      (''qualifiedtobuy'', \<lparr> expectedDays = 21, maxDays = 45 \<rparr>),
      (''presentationscheduled'', \<lparr> expectedDays = 14, maxDays = 30 \<rparr>),
      (''decisionmakerboughtin'', \<lparr> expectedDays = 21, maxDays = 45 \<rparr>),
      (''contractsent'', \<lparr> expectedDays = 14, maxDays = 30 \<rparr>)]"

text \<open>
  The result. In the early return \<open>isSlowing\<close>, \<open>currentStage\<close> and \<open>status\<close> are
  absent and \<open>daysInStage\<close> and \<open>benchmark\<close> are \<open>null\<close>. Otherwise \<open>benchmark\<close> is what
  \<open>STAGE_VELOCITY_BENCHMARKS[currentStage] || { expectedDays: 21, maxDays: 45 }\<close> gave.
\<close>

record stageVelocity =
  isStuck :: bool
  isSlowing :: "bool option"
  daysInStage :: "int option"
  sv_benchmark :: "benchmark property option"
  currentStage :: "string option"
  status :: "string option"
  sv_recommendation :: string

text \<open>A field of the benchmark; \<open>None\<close> is \<open>undefined\<close>, read from an inherited member.\<close>

definition benchmarkField :: "(benchmark \<Rightarrow> int) \<Rightarrow> benchmark property \<Rightarrow> int option" where
  "benchmarkField f b = (case b of Own v \<Rightarrow> Some (f v) | Inherited \<Rightarrow> None | Undefined \<Rightarrow> None)"

text \<open>\<open>a > b\<close>, false when \<open>b\<close> is \<open>undefined\<close>.\<close>

definition greaterThan :: "int \<Rightarrow> int option \<Rightarrow> bool" where
  "greaterThan a b = (case b of None \<Rightarrow> False | Some v \<Rightarrow> a > v)"

definition showField :: "int option \<Rightarrow> string" where
  "showField v = (case v of None \<Rightarrow> ''undefined'' | Some n \<Rightarrow> showInt n)"

text \<open>The first argument is the time \<open>new Date()\<close> reads, the second \<open>dealData.deal\<close>.\<close>

definition analyzeStageVelocity :: "int \<Rightarrow> deal option \<Rightarrow> stageVelocity" where
  "analyzeStageVelocity now dealOpt =
     (let stage = orString (case dealOpt of None \<Rightarrow> None | Some d \<Rightarrow> dealstage d) ''unknown'';
          stageEnteredAt =
            (case dealOpt of
               None \<Rightarrow> None
             | Some d \<Rightarrow> (case hs_date_entered_currentstage d of
                            NoDate \<Rightarrow> None | InvalidDate \<Rightarrow> None | ValidDate t \<Rightarrow> Some t))
      in case stageEnteredAt of
           None \<Rightarrow> \<lparr> isStuck = False, isSlowing = None, daysInStage = None, sv_benchmark = None,
                     currentStage = None, status = None,
                     sv_recommendation = ''Unable to determine stage duration'' \<rparr>
         | Some entered \<Rightarrow>
             let days = (now - entered) div (1000 * 60 * 60 * 24);
                 bench = (case getProperty STAGE_VELOCITY_BENCHMARKS stage of
                            Own b \<Rightarrow> Own b
                          | Inherited \<Rightarrow> Inherited
                          | Undefined \<Rightarrow> Own \<lparr> expectedDays = 21, maxDays = 45 \<rparr>);
                 stuck = greaterThan days (benchmarkField maxDays bench);
                 slowing = greaterThan days (benchmarkField expectedDays bench)
             in \<lparr> isStuck = stuck, isSlowing = Some slowing, daysInStage = Some days,
                  sv_benchmark = Some bench, currentStage = Some stage,
                  status = Some (if stuck then ''STUCK'' else if slowing then ''SLOWING''
                                 else ''ON_TRACK''),
                  sv_recommendation =
                    (if stuck then
                       ''Deal stuck in '' @ stage @ '' for '' @ showInt days @ '' days (max: ''
                         @ showField (benchmarkField maxDays bench) @ ''). Escalate or reassess.''
                     else if slowing then
                       ''Deal in '' @ stage @ '' for '' @ showInt days @ '' days (expected: ''
                         @ showField (benchmarkField expectedDays bench) @ ''). Monitor closely.''
                     else ''Deal progressing normally in '' @ stage) \<rparr>)"

section \<open>Coverage analysis service\<close>

subsection \<open>trackStakeholderLifecycle\<close>

text \<open>
  A contact of a snapshot as the tracker reads it, and the three members of a snapshot
  that it reads.
\<close>

record snapshotContact =
  sc_contactId :: "string option"
  sc_id :: "string option"
  sc_email :: "string option"
  sc_name :: "string option"
  sc_role :: "string option"
  sc_effectiveRole :: "string option"
  sc_engagementScore :: "int option"
  sc_lastEngagementDate :: dateField

record snapshot =
  sn_contacts :: "snapshotContact list option"
  sn_overallScore :: "int option"
  sn_threadDepth :: "int option"

text \<open>
  The entries of \<open>changes\<close>, one constructor for each \<open>type\<close>, with the members the code
  gives them except \<open>message\<close>: for a contact its identifier, name and role, for an
  engagement change the previous score, the current score and the difference as well,
  for the last two the previous value, the current value and the difference.
\<close>

datatype change =
    NEW_STAKEHOLDER string string "string option"
  | ENGAGEMENT_DECREASED string "string option" "string option" int int int
  | ENGAGEMENT_INCREASED string "string option" "string option" int int int
  | STAKEHOLDER_REMOVED string string "string option"
  | SCORE_CHANGE "int option" "int option" int
  | DEPTH_CHANGE "int option" "int option" int

text \<open>An alert, without its display strings.\<close>

record lifecycleAlert =
  priority :: string
  la_type :: string

record lifecycle =
  alerts :: "lifecycleAlert list"
  changes :: "change list"
  isFirstSnapshot :: bool
  summary :: string

definition firstTruthy :: "string option \<Rightarrow> string option \<Rightarrow> string option" where
  "firstTruthy a b = (case a of None \<Rightarrow> b | Some s \<Rightarrow> if s = [] then b else Some s)"

text \<open>\<open>contact.contactId || contact.id || contact.email || null\<close>\<close>

definition getContactId :: "snapshotContact \<Rightarrow> string option" where
  "getContactId c =
     firstTruthy (sc_contactId c) (firstTruthy (sc_id c) (firstTruthy (sc_email c) None))"

text \<open>
  \<open>new Map(entries)\<close> sets the entries one after the other: a key keeps the place of its
  first entry and the value of its last. The map is the list of its entries in
  iteration order.
\<close>

definition newMap :: "('k \<times> 'v) list \<Rightarrow> ('k \<times> 'v) list" where
  "newMap entries = foldl (\<lambda>m kv. AList.update (fst kv) (snd kv) m) [] entries"

definition contactMap :: "snapshotContact list \<Rightarrow> (string \<times> snapshotContact) list" where
  "contactMap contacts =
     newMap (map (\<lambda>c. (the (getContactId c), c)) (filter (\<lambda>c. getContactId c \<noteq> None) contacts))"

text \<open>\<open>(contact.role || contact.effectiveRole || '').toUpperCase()\<close>\<close>

definition upperRole :: "snapshotContact \<Rightarrow> string" where
  "upperRole c = toUpperCase (orString (firstTruthy (sc_role c) (sc_effectiveRole c)) [])"

text \<open>
  The body of the first loop for one entry of \<open>currentMap\<close>: what it pushes to \<open>changes\<close>
  and to \<open>alerts\<close>.
\<close>

definition engagementChanges ::
  "(string \<times> snapshotContact) list \<Rightarrow> string \<times> snapshotContact \<Rightarrow> change list \<times> lifecycleAlert list" where
  "engagementChanges previousMap entry =
     (let contactId = fst entry; currentContact = snd entry
      in case map_of previousMap contactId of
           None \<Rightarrow>
             ([NEW_STAKEHOLDER contactId (orString (sc_name currentContact) ''Unknown'')
                 (firstTruthy (sc_role currentContact) (sc_effectiveRole currentContact))], [])
         | Some previousContact \<Rightarrow>
             let currentEngagement = orInt (sc_engagementScore currentContact) 0;
                 previousEngagement = orInt (sc_engagementScore previousContact) 0;
                 engagementChange = currentEngagement - previousEngagement;
                 role = upperRole currentContact
             in if engagementChange \<le> -20 then
                  ([ENGAGEMENT_DECREASED contactId (sc_name currentContact)
                      (firstTruthy (sc_role currentContact) (sc_effectiveRole currentContact))
                      previousEngagement currentEngagement engagementChange],
                   if role = ''CHAMPION'' then
                     [\<lparr> priority = ''HIGH'', la_type = ''CHAMPION_COOLING'' \<rparr>]
                   else if role = ''DECISION_MAKER'' \<and> currentEngagement < 30 then
                     [\<lparr> priority = ''HIGH'', la_type = ''DM_DISENGAGED'' \<rparr>]
                   else [])
                else if engagementChange \<ge> 20 then
                  ([ENGAGEMENT_INCREASED contactId (sc_name currentContact)
                      (firstTruthy (sc_role currentContact) (sc_effectiveRole currentContact))
                      previousEngagement currentEngagement engagementChange],
                   if role = ''BUDGET_HOLDER'' then
                     [\<lparr> priority = ''MEDIUM'', la_type = ''BUDGET_HOLDER_ENGAGED'' \<rparr>]
                   else [])
                else ([], []))"

text \<open>The body of the second loop for one entry of \<open>previousMap\<close>.\<close>

definition removedChanges ::
  "(string \<times> snapshotContact) list \<Rightarrow> string \<times> snapshotContact \<Rightarrow> change list" where
  "removedChanges currentMap entry =
     (let contactId = fst entry; previousContact = snd entry
      in if map_of currentMap contactId = None then
           [STAKEHOLDER_REMOVED contactId (orString (sc_name previousContact) ''Unknown'')
              (firstTruthy (sc_role previousContact) (sc_effectiveRole previousContact))]
         else [])"

text \<open>
  The body of the third loop for one contact of the current snapshot. With an invalid
  date \<open>daysSince\<close> is \<open>NaN\<close> and both comparisons are false.
\<close>

definition inactivityAlerts :: "int \<Rightarrow> snapshotContact \<Rightarrow> lifecycleAlert list" where
  "inactivityAlerts now contact =
     (let role = upperRole contact
      in case sc_lastEngagementDate contact of
           NoDate \<Rightarrow> []
         | InvalidDate \<Rightarrow> []
         | ValidDate lastEngagement \<Rightarrow>
             let daysSince = (now - lastEngagement) div (1000 * 60 * 60 * 24)
             in if role = ''DECISION_MAKER'' \<and> daysSince \<ge> 14 then
                  [\<lparr> priority = ''HIGH'', la_type = ''DM_INACTIVE'' \<rparr>]
                else if role = ''CHAMPION'' \<and> daysSince \<ge> 9 then
                  [\<lparr> priority = ''MEDIUM'', la_type = ''CHAMPION_INACTIVE'' \<rparr>]
                else [])"

definition priorityOrder :: "string \<Rightarrow> nat" where
  "priorityOrder p = (if p = ''HIGH'' then 0 else if p = ''MEDIUM'' then 1 else 2)"

text \<open>
  The first argument is the time \<open>new Date()\<close> reads. \<open>Array.prototype.sort\<close> is stable,
  as \<open>sort_key\<close> is. Every alert of this function has priority HIGH or MEDIUM.
\<close>

definition trackStakeholderLifecycle :: "int \<Rightarrow> snapshot \<Rightarrow> snapshot option \<Rightarrow> lifecycle" where
  "trackStakeholderLifecycle now currentSnapshot previousOpt =
     (case previousOpt of
        None \<Rightarrow> \<lparr> alerts = [], changes = [], isFirstSnapshot = True,
                  summary = ''First engagement snapshot recorded'' \<rparr>
      | Some previousSnapshot \<Rightarrow>
          let currentContacts = withDefault (sn_contacts currentSnapshot) [];
              previousContacts = withDefault (sn_contacts previousSnapshot) [];
              currentMap = contactMap currentContacts;
              previousMap = contactMap previousContacts;
              perContact = map (engagementChanges previousMap) currentMap;
              removed = concat (map (removedChanges currentMap) previousMap);
              scoreDelta = orInt (sn_overallScore currentSnapshot) 0
                           - orInt (sn_overallScore previousSnapshot) 0;
              depthDelta = orInt (sn_threadDepth currentSnapshot) 0
                           - orInt (sn_threadDepth previousSnapshot) 0;
              allChanges = concat (map fst perContact) @ removed
                @ (if \<bar>scoreDelta\<bar> \<ge> 10 then
                     [SCORE_CHANGE (sn_overallScore previousSnapshot)
                        (sn_overallScore currentSnapshot) scoreDelta]
                   else [])
                @ (if depthDelta \<noteq> 0 then
                     [DEPTH_CHANGE (sn_threadDepth previousSnapshot)
                        (sn_threadDepth currentSnapshot) depthDelta]
                   else []);
              allAlerts = concat (map snd perContact)
                @ concat (map (inactivityAlerts now) currentContacts)
          in \<lparr> alerts = sort_key (\<lambda>a. priorityOrder (priority a)) allAlerts,
               changes = allChanges, isFirstSnapshot = False,
               summary = showNat (length allChanges) @ '' changes detected, ''
                         @ showNat (length allAlerts) @ '' alerts generated'' \<rparr>)"

text \<open>The identifiers that the entries of \<open>changes\<close> report, by kind.\<close>

fun removedId :: "change \<Rightarrow> string option" where
  "removedId (STAKEHOLDER_REMOVED k n r) = Some k"
| "removedId c = None"

fun engagementChangeId :: "change \<Rightarrow> string option" where
  "engagementChangeId (ENGAGEMENT_DECREASED k n r p c d) = Some k"
| "engagementChangeId (ENGAGEMENT_INCREASED k n r p c d) = Some k"
| "engagementChangeId c = None"

fun newStakeholderId :: "change \<Rightarrow> string option" where
  "newStakeholderId (NEW_STAKEHOLDER k n r) = Some k"
| "newStakeholderId c = None"

text \<open>The identifiers of the contacts of a snapshot that have one.\<close>

definition contactIds :: "snapshot \<Rightarrow> string set" where
  "contactIds s = {k. \<exists>c \<in> set (withDefault (sn_contacts s) []). getContactId c = Some k}"

subsection \<open>calculateChampionStrength\<close>

text \<open>
  The products \<open>rate * 25\<close> are exact here. In doubles a product can fall just short
  of the exact one (\<open>0.58 * 25\<close> is \<open>14.499999999999998\<close>), and the rounded score that
  the code reports is then one less than the exact rounding.
\<close>

text \<open>
  The function multiplies members of \<open>engagements\<close> without a default, so a missing member
  makes the product \<open>NaN\<close>, which then spreads through \<open>Math.min\<close>, \<open>Math.round\<close> and
  the sum, and fails every comparison. In this function \<open>None\<close> in an engagement counter
  is a missing member (\<open>undefined\<close>); a \<open>null\<close> counts like \<open>Some 0\<close>.
\<close>

datatype number = Num rat | NaN

definition mathMin :: "number \<Rightarrow> rat \<Rightarrow> number" where
  "mathMin a b = (case a of NaN \<Rightarrow> NaN | Num x \<Rightarrow> Num (min x b))"

definition mathRound :: "number \<Rightarrow> number" where
  "mathRound a = (case a of NaN \<Rightarrow> NaN | Num x \<Rightarrow> Num (of_int (round x)))"

definition numAdd :: "number \<Rightarrow> number \<Rightarrow> number" where
  "numAdd a b = (case a of NaN \<Rightarrow> NaN | Num x \<Rightarrow> (case b of NaN \<Rightarrow> NaN | Num y \<Rightarrow> Num (x + y)))"

definition numLess :: "number \<Rightarrow> rat \<Rightarrow> bool" where
  "numLess a b = (case a of NaN \<Rightarrow> False | Num x \<Rightarrow> x < b)"

definition numAtLeast :: "number \<Rightarrow> rat \<Rightarrow> bool" where
  "numAtLeast a b = (case a of NaN \<Rightarrow> False | Num x \<Rightarrow> x \<ge> b)"

definition counterTimes :: "nat option \<Rightarrow> rat \<Rightarrow> number" where
  "counterTimes field k = (case field of None \<Rightarrow> NaN | Some n \<Rightarrow> Num (of_nat n * k))"

text \<open>
  The three tests of the job title are regular expressions of the form
  \<open>/\b(w1|w2|...)\b/i\<close>: some alternative occurs in the title, letters compared without
  case, with a word boundary on each side. A word character is an ASCII letter, a digit
  or the underscore; there is a boundary at a position when exactly one of the characters
  before and after it is a word character (the ends of the string count as none).
\<close>

definition isWordChar :: "char \<Rightarrow> bool" where
  "isWordChar c =
     (c \<in> set ''abcdefghijklmnopqrstuvwxyzABCDEFGHIJKLMNOPQRSTUVWXYZ0123456789_'')"

definition wordBoundary :: "string \<Rightarrow> nat \<Rightarrow> bool" where
  "wordBoundary s i =
     ((0 < i \<and> i \<le> length s \<and> isWordChar (s ! (i - 1))) \<noteq> (i < length s \<and> isWordChar (s ! i)))"

definition occursAt :: "string \<Rightarrow> nat \<Rightarrow> string \<Rightarrow> bool" where
  "occursAt s i w = (take (length w) (drop i (toLowerCase s)) = w)"

definition testWords :: "string list \<Rightarrow> string \<Rightarrow> bool" where
  "testWords alternatives s =
     (\<exists>i \<in> set [0..<Suc (length s)]. wordBoundary s i
        \<and> (\<exists>w \<in> set alternatives. occursAt s i w \<and> wordBoundary s (i + length w)))"

text \<open>\<open>name.includes(part)\<close>\<close>

fun stringIncludes :: "string \<Rightarrow> string \<Rightarrow> bool" where
  "stringIncludes [] part = (part = [])"
| "stringIncludes (c # cs) part = (take (length part) (c # cs) = part \<or> stringIncludes cs part)"

record strengthOptions =
  so_responseRate :: "rat option"
  advocacyIndicators :: "string list option"
  meetingAttendance :: "rat option"

text \<open>A factor, without its description; \<open>maxScore\<close> is 25 in each.\<close>

record strengthFactor =
  sf_name :: string
  sf_score :: number
  maxScore :: nat

record championStrength =
  strengthScore :: number
  reliability :: string
  sf_factors :: "strengthFactor list"
  recommendations :: "string list"

definition influenceScore :: "string \<Rightarrow> rat" where
  "influenceScore jobTitle =
     (if testWords [''senior'', ''sr.'', ''lead'', ''principal'', ''director'', ''vp'', ''head''] jobTitle
      then 25
      else if testWords [''manager'', ''supervisor''] jobTitle then 20
      else if testWords [''specialist'', ''consultant'', ''analyst''] jobTitle then 15
      else 10)"

text \<open>\<open>factors.find(f => test(f.name) && f.score < 15)\<close>, as a truth value.\<close>

definition findLow :: "(string \<Rightarrow> bool) \<Rightarrow> strengthFactor list \<Rightarrow> bool" where
  "findLow test fs = (\<exists>f \<in> set fs. test (sf_name f) \<and> numLess (sf_score f) 15)"

definition calculateChampionStrength :: "champion option \<Rightarrow> strengthOptions \<Rightarrow> championStrength" where
  "calculateChampionStrength championOpt options =
     (case championOpt of
        None \<Rightarrow> \<lparr> strengthScore = Num 0, reliability = ''NONE'', sf_factors = [],
                  recommendations = [''Identify and develop a champion within the organization''] \<rparr>
      | Some champion \<Rightarrow>
          let engagements' = withDefault (ch_engagements champion) zeroEngagements;
              indicators = withDefault (advocacyIndicators options) [];
              responsiveness =
                (case so_responseRate options of
                   Some rate \<Rightarrow>
                     (let responsivenessScore = mathMin (Num (rate * 25)) 25
                      in (\<lparr> sf_name = ''Responsiveness'', sf_score = mathRound responsivenessScore,
                            maxScore = 25 \<rparr>, responsivenessScore))
                 | None \<Rightarrow>
                     (let estimatedResponsiveness = mathMin (counterTimes (totalCount engagements') 2) 25
                      in (\<lparr> sf_name = ''Responsiveness (estimated)'',
                            sf_score = mathRound estimatedResponsiveness, maxScore = 25 \<rparr>,
                          estimatedResponsiveness)));
              advocacyScore = Num (min (of_nat (length indicators) * 5 + 5) 25);
              advocacy = \<lparr> sf_name = ''Advocacy'', sf_score = advocacyScore, maxScore = 25 \<rparr>;
              meeting =
                (case meetingAttendance options of
                   Some attendance \<Rightarrow>
                     (let attendanceScore = mathMin (Num (attendance * 25)) 25
                      in (\<lparr> sf_name = ''Meeting Attendance'', sf_score = mathRound attendanceScore,
                            maxScore = 25 \<rparr>, attendanceScore))
                 | None \<Rightarrow>
                     (let meetingScore = mathMin (counterTimes (meetings engagements') 5) 25
                      in (\<lparr> sf_name = ''Meeting Participation'', sf_score = meetingScore,
                            maxScore = 25 \<rparr>, meetingScore)));
              jobTitle = orString (firstTruthy (ch_jobtitle champion) (ch_jobTitle champion)) [];
              influence = \<lparr> sf_name = ''Influence Level'', sf_score = Num (influenceScore jobTitle),
                            maxScore = 25 \<rparr>;
              fs = [fst responsiveness, advocacy, fst meeting, influence];
              totalScore = numAdd (numAdd (numAdd (snd responsiveness) advocacyScore) (snd meeting))
                             (Num (influenceScore jobTitle));
              rel = (if numAtLeast totalScore 80 then ''STRONG''
                     else if numAtLeast totalScore 60 then ''MODERATE''
                     else if numAtLeast totalScore 40 then ''DEVELOPING''
                     else ''WEAK'');
              recs =
                (if findLow (\<lambda>n. stringIncludes n ''Responsiveness'') fs
                 then [''Improve communication frequency with champion''] else [])
                @ (if findLow (\<lambda>n. n = ''Advocacy'') fs
                   then [''Provide champion with compelling content to share internally''] else [])
                @ (if findLow (\<lambda>n. stringIncludes n ''Meeting'') fs
                   then [''Increase meeting frequency with champion''] else [])
                @ (if rel = ''WEAK''
                   then [''Consider identifying an additional or alternative champion''] else [])
          in \<lparr> strengthScore = mathRound totalScore, reliability = rel, sf_factors = fs,
               recommendations =
                 (if length recs > 0 then recs
                  else [''Champion is performing well - maintain current engagement'']) \<rparr>)"

section \<open>Properties of the scoring service\<close>

subsection \<open>Auxiliary facts\<close>

lemma contact_score_le_100: "calculateContactEngagementScore e \<le> 100"
  by (simp add: calculateContactEngagementScore_def Let_def)

lemma engagement_sum_le:
  "foldl (\<lambda>sum c. sum + ce_engagementScore c) a (map contactEngagementEntry cs)
     \<le> a + 100 * length cs"
proof (induction cs arbitrary: a)
  case Nil
  then show ?case by simp
next
  case (Cons c cs)
  have "ce_engagementScore (contactEngagementEntry c) \<le> 100"
    by (simp add: contactEngagementEntry_def contact_score_le_100)
  with Cons [of "a + ce_engagementScore (contactEngagementEntry c)"] show ?case by simp
qed

lemma avgEngagementScore_bounds:
  "0 \<le> avgEngagementScore (map contactEngagementEntry cs)
   \<and> avgEngagementScore (map contactEngagementEntry cs) \<le> 100"
proof (cases "cs = []")
  case True
  then show ?thesis by (simp add: avgEngagementScore_def)
next
  case False
  let ?s = "foldl (\<lambda>sum c. sum + ce_engagementScore c) 0 (map contactEngagementEntry cs)"
  let ?q = "(of_nat ?s :: rat) / of_nat (length cs)"
  have "?s \<le> 100 * length cs" using engagement_sum_le [of 0 cs] by simp
  then have "(of_nat ?s :: rat) \<le> of_nat (100 * length cs)" by (rule of_nat_mono)
  then have "?q \<le> 100" using False by (simp add: divide_le_eq)
  then have "round ?q \<le> round (100 :: rat)" by (rule round_mono)
  moreover have "0 \<le> ?q" by simp
  then have "round (0::rat) \<le> round ?q" by (rule round_mono)
  ultimately show ?thesis using False by (simp add: avgEngagementScore_def)
qed

lemma participation_bounds:
  "0 \<le> calculateParticipationScore cs \<and> calculateParticipationScore cs \<le> 100"
proof -
  let ?n = "length (filter (\<lambda>c. engagementTotal c \<ge> 2) cs)"
  have "round (0::rat) \<le> round ((of_nat ?n :: rat) / of_nat (length cs) * 60
                                  + of_nat (min (?n * 10) 40))"
    by (rule round_mono) simp
  then show ?thesis by (simp add: calculateParticipationScore_def Let_def)
qed

lemma roleCoverage_bounds:
  "0 \<le> score (calculateRoleCoverageScore cs) \<and> score (calculateRoleCoverageScore cs) \<le> 100"
proof -
  let ?cov = "fst (foldl roleStep ([], 0) cs)"
  let ?miss = "filter (\<lambda>role. role \<notin> set ?cov) KEY_ROLES"
  let ?k = "(of_nat (length KEY_ROLES) - of_nat (length ?miss)) / of_nat (length KEY_ROLES)
              * (100 :: rat)"
  let ?x = "?k * 0.7 + of_nat (min (length ?cov * 10) 30)"
  have "length ?miss \<le> length KEY_ROLES" by (rule length_filter_le)
  then have "0 \<le> ?k" by simp
  then have "0 \<le> ?x" by simp
  then have "round (0::rat) \<le> round ?x" by (rule round_mono)
  then show ?thesis by (simp add: calculateRoleCoverageScore_def Let_def)
qed

lemma weighted_sum_bounds:
  fixes a p r :: int and b :: nat
  assumes "0 \<le> a" "a \<le> 100" "0 \<le> p" "p \<le> 100" "0 \<le> r" "r \<le> 100" "b \<le> 10"
  shows "0 \<le> round ((of_int a :: rat) * 0.30 + of_int p * 0.25 + of_int r * 0.35 + of_nat b)
       \<and> round ((of_int a :: rat) * 0.30 + of_int p * 0.25 + of_int r * 0.35 + of_nat b) \<le> 100"
proof -
  let ?x = "(of_int a :: rat) * 0.30 + of_int p * 0.25 + of_int r * 0.35 + of_nat b"
  have a: "(0::rat) \<le> of_int a" "(of_int a :: rat) \<le> 100" using assms by simp_all
  have p: "(0::rat) \<le> of_int p" "(of_int p :: rat) \<le> 100" using assms by simp_all
  have r: "(0::rat) \<le> of_int r" "(of_int r :: rat) \<le> 100" using assms by simp_all
  have b: "(of_nat b :: rat) \<le> 10" "(0::rat) \<le> of_nat b" using assms by simp_all
  have "0 \<le> ?x" using a p r b by simp
  then have lo: "round (0::rat) \<le> round ?x" by (rule round_mono)
  have "?x \<le> 100" using a p r b by simp
  then have hi: "round ?x \<le> round (100::rat)" by (rule round_mono)
  show ?thesis using lo hi by simp
qed

lemma set_foldl_roleStep:
  "set (fst (foldl roleStep acc cs)) = set (fst acc) \<union> contactRole ` set cs"
  by (induction cs arbitrary: acc) (auto simp: roleStep_def setAdd_def Let_def)

lemma distinct_foldl_roleStep:
  "distinct (fst acc) \<Longrightarrow> distinct (fst (foldl roleStep acc cs))"
  by (induction cs arbitrary: acc) (auto simp: roleStep_def setAdd_def Let_def)

lemma three_members_length:
  assumes "distinct xs" "a \<in> set xs" "b \<in> set xs" "c \<in> set xs" "a \<noteq> b" "a \<noteq> c" "b \<noteq> c"
  shows "3 \<le> length xs"
proof -
  have "card {a, b, c} \<le> card (set xs)"
    using assms by (intro card_mono) auto
  moreover have "card {a, b, c} = 3" using assms by simp
  moreover have "card (set xs) = length xs" using assms(1) by (simp add: distinct_card)
  ultimately show ?thesis by simp
qed

lemma engagementTotal_raw:
  "engagementTotal c = orNat (case engagements c of None \<Rightarrow> None | Some e \<Rightarrow> totalCount e) 0"
  by (simp add: engagementTotal_def orNat_def split: option.splits)

lemma length_filter_via_map:
  "length (filter (\<lambda>c. P (f c)) cs) = length (filter P (map f cs))"
  by (induction cs) simp_all

lemma totals_agree:
  assumes "map (\<lambda>c. case engagements c of None \<Rightarrow> None | Some e \<Rightarrow> totalCount e) cs
         = map (\<lambda>c. case engagements c of None \<Rightarrow> None | Some e \<Rightarrow> totalCount e) cs'"
  shows "map engagementTotal cs = map engagementTotal cs'"
proof -
  let ?raw = "\<lambda>c. case engagements c of None \<Rightarrow> None | Some e \<Rightarrow> totalCount e"
  have "map engagementTotal cs = map (\<lambda>t. orNat t 0) (map ?raw cs)"
    by (simp add: engagementTotal_raw)
  also have "\<dots> = map (\<lambda>t. orNat t 0) (map ?raw cs')"
    using assms by simp
  also have "\<dots> = map engagementTotal cs'"
    by (simp add: engagementTotal_raw)
  finally show ?thesis .
qed

lemma participation_via_totals:
  "calculateParticipationScore cs =
     (if length (map engagementTotal cs) = 0 then 0
      else min (round ((of_nat (length (filter (\<lambda>t. t \<ge> 2) (map engagementTotal cs))) :: rat)
                         / of_nat (length (map engagementTotal cs)) * 60
                       + of_nat (min (length (filter (\<lambda>t. t \<ge> 2) (map engagementTotal cs)) * 10) 40)))
               100)"
  by (simp add: calculateParticipationScore_def Let_def
        length_filter_via_map [of "\<lambda>t. t \<ge> 2" engagementTotal])

lemma depth_via_totals:
  "countThreadDepth cs = length (filter (\<lambda>t. t > 0) (map engagementTotal cs))"
  by (simp add: countThreadDepth_def length_filter_via_map [of "\<lambda>t. t > 0" engagementTotal])

subsection \<open>The overall score\<close>

lemma foldl_engagement_sum:
  "foldl (\<lambda>sum c. sum + ce_engagementScore c) a (map contactEngagementEntry cs)
     = a + sum_list (map (\<lambda>c. calculateContactEngagementScore
                                  (withDefault (engagements c) emptyEngagements)) cs)"
  by (induction cs arbitrary: a) (simp_all add: contactEngagementEntry_def)

lemma avgEngagementScore_mean:
  "avgEngagementScore (map contactEngagementEntry cs) =
     (if cs = [] then 0
      else round ((of_nat (sum_list (map (\<lambda>c. calculateContactEngagementScore
                                               (withDefault (engagements c) emptyEngagements)) cs))
                    :: rat) / of_nat (length cs)))"
  by (simp add: avgEngagementScore_def foldl_engagement_sum)

text \<open>
  Claim C1. For every contact list the overall score of \<open>calculateMultiThreadingScore\<close>
  lies between 0 and 100 and is the rounded weighted sum of the average engagement score
  of the contacts (30 percent), their participation score (25 percent), their role
  coverage score (35 percent) and the thread depth bonus, 10 times the number of contacts
  with an engagement and at most 10. The average engagement score is the rounded mean of
  the contacts' engagement scores, and the four parts are the ones the result reports.
  For the empty contact list (given, or missing from the argument) the overall score is 0
  and the risk level is HIGH.
\<close>

theorem C1_overall_score:
  "0 \<le> overallScore (calculateMultiThreadingScore (Some cs))
   \<and> overallScore (calculateMultiThreadingScore (Some cs)) \<le> 100
   \<and> overallScore (calculateMultiThreadingScore (Some cs))
       = round ((of_int (avgEngagementScore (map contactEngagementEntry cs)) :: rat) * 0.30
                + of_int (calculateParticipationScore cs) * 0.25
                + of_int (score (calculateRoleCoverageScore cs)) * 0.35
                + of_nat (min (countThreadDepth cs * 10) 10))
   \<and> avgEngagementScore (map contactEngagementEntry cs)
       = (if cs = [] then 0
          else round ((of_nat (sum_list (map (\<lambda>c. calculateContactEngagementScore
                                  (withDefault (engagements c) emptyEngagements)) cs)) :: rat)
                      / of_nat (length cs)))
   \<and> engagementScore (calculateMultiThreadingScore (Some cs))
       = avgEngagementScore (map contactEngagementEntry cs)
   \<and> participationScore (calculateMultiThreadingScore (Some cs))
       = calculateParticipationScore cs
   \<and> roleCoverageScore (calculateMultiThreadingScore (Some cs))
       = score (calculateRoleCoverageScore cs)
   \<and> threadDepth (calculateMultiThreadingScore (Some cs)) = countThreadDepth cs
   \<and> calculateMultiThreadingScore None = calculateMultiThreadingScore (Some [])
   \<and> overallScore (calculateMultiThreadingScore (Some [])) = 0
   \<and> riskLevel (calculateMultiThreadingScore (Some [])) = ''HIGH''"
proof -
  let ?r = "calculateMultiThreadingScore (Some cs)"
  have parts: "engagementScore ?r = avgEngagementScore (map contactEngagementEntry cs)"
    "participationScore ?r = calculateParticipationScore cs"
    "roleCoverageScore ?r = score (calculateRoleCoverageScore cs)"
    "threadDepth ?r = countThreadDepth cs"
    by (simp_all add: calculateMultiThreadingScore_def Let_def withDefault_def)
  have formula: "overallScore ?r
       = round ((of_int (avgEngagementScore (map contactEngagementEntry cs)) :: rat) * 0.30
                + of_int (calculateParticipationScore cs) * 0.25
                + of_int (score (calculateRoleCoverageScore cs)) * 0.35
                + of_nat (min (countThreadDepth cs * 10) 10))"
    by (simp add: calculateMultiThreadingScore_def Let_def withDefault_def)
  have range: "0 \<le> overallScore ?r \<and> overallScore ?r \<le> 100"
    unfolding formula
    using avgEngagementScore_bounds [of cs] participation_bounds [of cs]
      roleCoverage_bounds [of cs]
    by (intro weighted_sum_bounds) simp_all
  have missing: "calculateMultiThreadingScore None = calculateMultiThreadingScore (Some [])"
    by (simp add: calculateMultiThreadingScore_def withDefault_def)
  have empty: "overallScore (calculateMultiThreadingScore (Some [])) = 0"
    "riskLevel (calculateMultiThreadingScore (Some [])) = ''HIGH''"
    by (simp_all add: calculateMultiThreadingScore_def Let_def withDefault_def
          avgEngagementScore_def calculateParticipationScore_def calculateRoleCoverageScore_def
          countThreadDepth_def KEY_ROLES_def)
  from range formula parts missing empty avgEngagementScore_mean [of cs] show ?thesis
    by (simp only: simp_thms)
qed

text \<open>
  A lone contact with no engagement and no role scores 4, the rounding of 35 percent of
  the role coverage score 10; a lone champion with three emails and a meeting scores 50.
\<close>

theorem C1_overall_score_witness:
  "overallScore (calculateMultiThreadingScore (Some
     [\<lparr> cid = Some ''7'', firstname = None, lastname = None, email = None,
        hs_buying_role = None, jobtitle = None, engagements = None \<rparr>])) = 4
   \<and> overallScore (calculateMultiThreadingScore (Some
     [\<lparr> cid = Some ''1'', firstname = None, lastname = None, email = None,
        hs_buying_role = Some ''champion'', jobtitle = None,
        engagements = Some \<lparr> emails = Some 3, meetings = Some 1, calls = None,
                              totalCount = Some 4 \<rparr> \<rparr>])) = 50"
proof -
  let ?c0 = "[\<lparr> cid = Some ''7'', firstname = None, lastname = None, email = None,
        hs_buying_role = None, jobtitle = None, engagements = None \<rparr>]"
  let ?c1 = "[\<lparr> cid = Some ''1'', firstname = None, lastname = None, email = None,
        hs_buying_role = Some ''champion'', jobtitle = None,
        engagements = Some \<lparr> emails = Some 3, meetings = Some 1, calls = None,
                              totalCount = Some 4 \<rparr> \<rparr>]"
  have v0: "round ((of_int (avgEngagementScore (map contactEngagementEntry ?c0)) :: rat) * 0.30
                + of_int (calculateParticipationScore ?c0) * 0.25
                + of_int (score (calculateRoleCoverageScore ?c0)) * 0.35
                + of_nat (min (countThreadDepth ?c0 * 10) 10)) = 4"
    by code_simp
  have v1: "round ((of_int (avgEngagementScore (map contactEngagementEntry ?c1)) :: rat) * 0.30
                + of_int (calculateParticipationScore ?c1) * 0.25
                + of_int (score (calculateRoleCoverageScore ?c1)) * 0.35
                + of_nat (min (countThreadDepth ?c1 * 10) 10)) = 50"
    by code_simp
  from C1_overall_score [of ?c0] C1_overall_score [of ?c1] v0 v1 show ?thesis
    by (simp only: simp_thms)
qed

subsection \<open>The engagement score of one contact\<close>

text \<open>
  Claim C2. \<open>calculateContactEngagementScore\<close> is monotonically non-decreasing in each
  of emails, meetings and calls (a missing counter reads as 0), its result lies in
  [0, 100], and for every count \<open>n\<close> a contact with \<open>n\<close> meetings and nothing else scores
  at least as much as a contact with \<open>n\<close> calls and nothing else, which scores at least as
  much as a contact with \<open>n\<close> emails and nothing else.
\<close>

theorem C2_engagement_score:
  "(withDefault (emails e) 0 \<le> withDefault (emails e') 0
      \<and> withDefault (meetings e) 0 \<le> withDefault (meetings e') 0
      \<and> withDefault (calls e) 0 \<le> withDefault (calls e') 0
      \<longrightarrow> calculateContactEngagementScore e \<le> calculateContactEngagementScore e')
   \<and> 0 \<le> calculateContactEngagementScore e
   \<and> calculateContactEngagementScore e \<le> 100
   \<and> calculateContactEngagementScore
        \<lparr> emails = Some 0, meetings = Some n, calls = Some 0, totalCount = t1 \<rparr>
      \<ge> calculateContactEngagementScore
        \<lparr> emails = Some 0, meetings = Some 0, calls = Some n, totalCount = t2 \<rparr>
   \<and> calculateContactEngagementScore
        \<lparr> emails = Some 0, meetings = Some 0, calls = Some n, totalCount = t2 \<rparr>
      \<ge> calculateContactEngagementScore
        \<lparr> emails = Some n, meetings = Some 0, calls = Some 0, totalCount = t3 \<rparr>
   \<and> calculateContactEngagementScore
        \<lparr> emails = None, meetings = Some n, calls = None, totalCount = t1 \<rparr>
      \<ge> calculateContactEngagementScore
        \<lparr> emails = None, meetings = None, calls = Some n, totalCount = t2 \<rparr>
   \<and> calculateContactEngagementScore
        \<lparr> emails = None, meetings = None, calls = Some n, totalCount = t2 \<rparr>
      \<ge> calculateContactEngagementScore
        \<lparr> emails = Some n, meetings = None, calls = None, totalCount = t3 \<rparr>"
proof -
  have mono: "withDefault (emails e) 0 \<le> withDefault (emails e') 0
      \<and> withDefault (meetings e) 0 \<le> withDefault (meetings e') 0
      \<and> withDefault (calls e) 0 \<le> withDefault (calls e') 0
      \<longrightarrow> calculateContactEngagementScore e \<le> calculateContactEngagementScore e'"
    unfolding calculateContactEngagementScore_def Let_def
    by (intro impI min.mono add_mono mult_le_mono1) simp_all
  have channels:
    "calculateContactEngagementScore
        \<lparr> emails = Some 0, meetings = Some n, calls = Some 0, totalCount = t1 \<rparr>
      \<ge> calculateContactEngagementScore
        \<lparr> emails = Some 0, meetings = Some 0, calls = Some n, totalCount = t2 \<rparr>"
    "calculateContactEngagementScore
        \<lparr> emails = Some 0, meetings = Some 0, calls = Some n, totalCount = t2 \<rparr>
      \<ge> calculateContactEngagementScore
        \<lparr> emails = Some n, meetings = Some 0, calls = Some 0, totalCount = t3 \<rparr>"
    "calculateContactEngagementScore
        \<lparr> emails = None, meetings = Some n, calls = None, totalCount = t1 \<rparr>
      \<ge> calculateContactEngagementScore
        \<lparr> emails = None, meetings = None, calls = Some n, totalCount = t2 \<rparr>"
    "calculateContactEngagementScore
        \<lparr> emails = None, meetings = None, calls = Some n, totalCount = t2 \<rparr>
      \<ge> calculateContactEngagementScore
        \<lparr> emails = Some n, meetings = None, calls = None, totalCount = t3 \<rparr>"
    by (simp_all add: calculateContactEngagementScore_def Let_def withDefault_def min_def)
  from mono channels contact_score_le_100 [of e] show ?thesis by simp
qed

theorem C2_engagement_score_witness:
  "calculateContactEngagementScore
      \<lparr> emails = Some 2, meetings = Some 1, calls = None, totalCount = Some 3 \<rparr>
    \<le> calculateContactEngagementScore
      \<lparr> emails = Some 3, meetings = Some 1, calls = Some 1, totalCount = None \<rparr>
   \<and> calculateContactEngagementScore
        \<lparr> emails = Some 0, meetings = Some 1, calls = Some 0, totalCount = None \<rparr>
      \<ge> calculateContactEngagementScore
        \<lparr> emails = Some 0, meetings = Some 0, calls = Some 1, totalCount = None \<rparr>"
  using C2_engagement_score
    [of "\<lparr> emails = Some 2, meetings = Some 1, calls = None, totalCount = Some 3 \<rparr>"
        "\<lparr> emails = Some 3, meetings = Some 1, calls = Some 1, totalCount = None \<rparr>"
        1 None None None]
  by (simp add: withDefault_def)

subsection \<open>Role coverage\<close>

text \<open>
  Claim C3. For every contact list in which DECISION_MAKER, BUDGET_HOLDER and CHAMPION
  all occur among the contacts' buying roles (as the function reads them: upper-cased,
  OTHER when missing), \<open>calculateRoleCoverageScore\<close> returns a score of at least 70 and
  no missing key role.
\<close>

theorem C3_key_roles_covered:
  assumes "''DECISION_MAKER'' \<in> contactRole ` set cs"
      and "''BUDGET_HOLDER'' \<in> contactRole ` set cs"
      and "''CHAMPION'' \<in> contactRole ` set cs"
  shows "score (calculateRoleCoverageScore cs) \<ge> 70
         \<and> missingKeyRoles (calculateRoleCoverageScore cs) = []"
proof -
  let ?cov = "fst (foldl roleStep ([], 0) cs)"
  have s: "set ?cov = contactRole ` set cs" by (simp add: set_foldl_roleStep)
  have d: "distinct ?cov" by (simp add: distinct_foldl_roleStep)
  have "3 \<le> length ?cov"
    by (rule three_members_length
          [OF d, of "''DECISION_MAKER''" "''BUDGET_HOLDER''" "''CHAMPION''"])
       (use assms s in simp_all)
  then have b: "min (length ?cov * 10) 30 = 30" by simp
  show ?thesis
    using assms by (simp add: calculateRoleCoverageScore_def Let_def b KEY_ROLES_def s)
qed

theorem C3_key_roles_covered_witness:
  "score (calculateRoleCoverageScore
     [\<lparr> cid = Some ''1'', firstname = None, lastname = None, email = None,
        hs_buying_role = Some ''champion'', jobtitle = None, engagements = None \<rparr>,
      \<lparr> cid = Some ''2'', firstname = None, lastname = None, email = None,
        hs_buying_role = Some ''DECISION_MAKER'', jobtitle = None, engagements = None \<rparr>,
      \<lparr> cid = Some ''3'', firstname = None, lastname = None, email = None,
        hs_buying_role = Some ''Budget_Holder'', jobtitle = None, engagements = None \<rparr>]) \<ge> 70
   \<and> missingKeyRoles (calculateRoleCoverageScore
     [\<lparr> cid = Some ''1'', firstname = None, lastname = None, email = None,
        hs_buying_role = Some ''champion'', jobtitle = None, engagements = None \<rparr>,
      \<lparr> cid = Some ''2'', firstname = None, lastname = None, email = None,
        hs_buying_role = Some ''DECISION_MAKER'', jobtitle = None, engagements = None \<rparr>,
      \<lparr> cid = Some ''3'', firstname = None, lastname = None, email = None,
        hs_buying_role = Some ''Budget_Holder'', jobtitle = None, engagements = None \<rparr>]) = []"
  by (rule C3_key_roles_covered)
     (simp_all add: contactRole_def orString_def toUpperCase_def toUpperChar_def)

subsection \<open>Which engagement fields the scores read\<close>

text \<open>
  Claim C9. Two engagement records that agree on emails, meetings and calls get the same
  score from \<open>calculateContactEngagementScore\<close>, whatever their totals; and two contact
  lists whose contacts agree, position by position, on what \<open>engagements?.total\<close> reads
  get the same participation score and the same thread depth, whatever their other
  fields.
\<close>

theorem C9_fields_read:
  "(emails e = emails e' \<and> meetings e = meetings e' \<and> calls e = calls e'
      \<longrightarrow> calculateContactEngagementScore e = calculateContactEngagementScore e')
   \<and> (map (\<lambda>c. case engagements c of None \<Rightarrow> None | Some e \<Rightarrow> totalCount e) cs
        = map (\<lambda>c. case engagements c of None \<Rightarrow> None | Some e \<Rightarrow> totalCount e) cs'
      \<longrightarrow> calculateParticipationScore cs = calculateParticipationScore cs'
          \<and> countThreadDepth cs = countThreadDepth cs')"
proof (intro conjI impI)
  assume "emails e = emails e' \<and> meetings e = meetings e' \<and> calls e = calls e'"
  then show "calculateContactEngagementScore e = calculateContactEngagementScore e'"
    by (simp add: calculateContactEngagementScore_def)
next
  assume "map (\<lambda>c. case engagements c of None \<Rightarrow> None | Some e \<Rightarrow> totalCount e) cs
        = map (\<lambda>c. case engagements c of None \<Rightarrow> None | Some e \<Rightarrow> totalCount e) cs'"
  then have t: "map engagementTotal cs = map engagementTotal cs'" by (rule totals_agree)
  show "calculateParticipationScore cs = calculateParticipationScore cs'"
    unfolding participation_via_totals t ..
  show "countThreadDepth cs = countThreadDepth cs'"
    unfolding depth_via_totals t ..
qed

theorem C9_fields_read_witness:
  "calculateContactEngagementScore
      \<lparr> emails = Some 2, meetings = Some 1, calls = None, totalCount = Some 3 \<rparr>
    = calculateContactEngagementScore
      \<lparr> emails = Some 2, meetings = Some 1, calls = None, totalCount = Some 40 \<rparr>
   \<and> calculateParticipationScore
      [\<lparr> cid = Some ''1'', firstname = None, lastname = None, email = None,
         hs_buying_role = Some ''CHAMPION'', jobtitle = None,
         engagements = Some \<lparr> emails = Some 9, meetings = Some 0, calls = Some 0,
                               totalCount = Some 2 \<rparr> \<rparr>]
    = calculateParticipationScore
      [\<lparr> cid = Some ''2'', firstname = None, lastname = None, email = None,
         hs_buying_role = None, jobtitle = None,
         engagements = Some \<lparr> emails = None, meetings = Some 5, calls = Some 1,
                               totalCount = Some 2 \<rparr> \<rparr>]"
  using C9_fields_read
    [of "\<lparr> emails = Some 2, meetings = Some 1, calls = None, totalCount = Some 3 \<rparr>"
        "\<lparr> emails = Some 2, meetings = Some 1, calls = None, totalCount = Some 40 \<rparr>"
        "[\<lparr> cid = Some ''1'', firstname = None, lastname = None, email = None,
            hs_buying_role = Some ''CHAMPION'', jobtitle = None,
            engagements = Some \<lparr> emails = Some 9, meetings = Some 0, calls = Some 0,
                                  totalCount = Some 2 \<rparr> \<rparr>]"
        "[\<lparr> cid = Some ''2'', firstname = None, lastname = None, email = None,
            hs_buying_role = None, jobtitle = None,
            engagements = Some \<lparr> emails = None, meetings = Some 5, calls = Some 1,
                                  totalCount = Some 2 \<rparr> \<rparr>]"]
  by simp

section \<open>Properties of the alert throttle\<close>

subsection \<open>Auxiliary facts\<close>

lemma split_at_separator:
  "x \<notin> set xs \<Longrightarrow> x \<notin> set xs' \<Longrightarrow> xs @ x # ys = xs' @ x # ys' \<Longrightarrow> xs = xs' \<and> ys = ys'"
proof (induction xs arbitrary: xs')
  case Nil
  then show ?case by (cases xs') auto
next
  case (Cons a xs)
  then show ?case by (cases xs') auto
qed

text \<open>
  The key joins the deal identifier and the alert type with a hyphen. The pair can be
  read back from the key when the alert types have no hyphen, as the configured ones.
\<close>

lemma throttleKey_inject:
  assumes "throttleKey d t = throttleKey d' t'" "CHR ''-'' \<notin> set t" "CHR ''-'' \<notin> set t'"
  shows "d = d' \<and> t = t'"
proof -
  from assms(1) have "rev (d @ CHR ''-'' # t) = rev (d' @ CHR ''-'' # t')"
    by (simp add: throttleKey_def)
  then have e: "rev t @ CHR ''-'' # rev d = rev t' @ CHR ''-'' # rev d'"
    by simp
  have "CHR ''-'' \<notin> set (rev t)" "CHR ''-'' \<notin> set (rev t')"
    using assms(2,3) by simp_all
  then have "rev t = rev t' \<and> rev d = rev d'"
    using e by (intro split_at_separator [of "CHR ''-''"])
  then show ?thesis by simp
qed

lemma configured_type_no_hyphen:
  "map_of ALERT_CONFIGS t = Some c \<Longrightarrow> CHR ''-'' \<notin> set t"
  by (auto simp: ALERT_CONFIGS_def split: if_splits)

lemma configured_cooldown_range:
  "map_of ALERT_CONFIGS t = Some c \<Longrightarrow> 480 \<le> throttleMinutes c \<and> throttleMinutes c \<le> 1440"
  by (auto simp: ALERT_CONFIGS_def split: if_splits)

lemma shouldThrottle_configured:
  assumes "map_of ALERT_CONFIGS t = Some c" "sent \<noteq> 0"
  shows "shouldThrottle (recordAlertSent h sent d t) now d t
           \<longleftrightarrow> now - sent < int (throttleMinutes c) * 60 * 1000"
  using assms
  by (simp add: shouldThrottle_def recordAlertSent_def throttleMs_def getProperty_def Let_def)

lemma shouldThrottle_other_key:
  assumes "map_of ALERT_CONFIGS t = Some c" "map_of ALERT_CONFIGS t' = Some c'"
    and "(d, t) \<noteq> (d', t')"
  shows "shouldThrottle (recordAlertSent h sent d t) now d' t' = shouldThrottle h now d' t'"
proof -
  have "throttleKey d t \<noteq> throttleKey d' t'"
    using throttleKey_inject [of d t d' t'] configured_type_no_hyphen [OF assms(1)]
      configured_type_no_hyphen [OF assms(2)] assms(3) by auto
  then show ?thesis
    by (simp add: shouldThrottle_def recordAlertSent_def Let_def)
qed

subsection \<open>The cool-down of the configured alert types\<close>

text \<open>
  Claim C5. For every deal identifier and every alert type of \<open>ALERT_CONFIGS\<close>:
  \<open>shouldThrottle\<close> is false when no send is recorded for the key; the cool-down of the
  type is between 480 and 1440 minutes; after \<open>recordAlertSent\<close> at the clock reading
  \<open>sent\<close>, \<open>shouldThrottle\<close> for the same deal and type is true at once, and at a reading
  \<open>now\<close> it is true exactly while \<open>now - sent\<close> is less than the cool-down; and recording a
  send for one pair of deal and type leaves the answer for every other pair as it was.
  The clock reading \<open>sent\<close> is taken to differ from 0, the instant of the epoch, which the
  test \<open>!lastSent\<close> reads as no send.
\<close>

theorem C5_throttle_window:
  "(h (throttleKey dealId alertType) = None \<longrightarrow> \<not> shouldThrottle h now dealId alertType)
   \<and> (map_of ALERT_CONFIGS alertType = Some config
        \<longrightarrow> 480 \<le> throttleMinutes config \<and> throttleMinutes config \<le> 1440)
   \<and> (map_of ALERT_CONFIGS alertType = Some config \<and> sent \<noteq> 0
        \<longrightarrow> shouldThrottle (recordAlertSent h sent dealId alertType) sent dealId alertType
            \<and> (shouldThrottle (recordAlertSent h sent dealId alertType) now dealId alertType
                 \<longleftrightarrow> now - sent < int (throttleMinutes config) * 60 * 1000))
   \<and> (map_of ALERT_CONFIGS alertType = Some config
        \<and> map_of ALERT_CONFIGS alertType' = Some config'
        \<and> (dealId, alertType) \<noteq> (dealId', alertType')
        \<longrightarrow> shouldThrottle (recordAlertSent h sent dealId alertType) now dealId' alertType'
              = shouldThrottle h now dealId' alertType')"
proof (intro conjI impI)
  assume "h (throttleKey dealId alertType) = None"
  then show "\<not> shouldThrottle h now dealId alertType"
    by (simp add: shouldThrottle_def Let_def)
next
  assume "map_of ALERT_CONFIGS alertType = Some config"
  then show "480 \<le> throttleMinutes config" "throttleMinutes config \<le> 1440"
    using configured_cooldown_range by blast+
next
  assume a: "map_of ALERT_CONFIGS alertType = Some config \<and> sent \<noteq> 0"
  then have "0 < throttleMinutes config"
    using configured_cooldown_range [of alertType config] by simp
  with a show "shouldThrottle (recordAlertSent h sent dealId alertType) sent dealId alertType"
    by (simp add: shouldThrottle_configured)
  from a show "shouldThrottle (recordAlertSent h sent dealId alertType) now dealId alertType
                 \<longleftrightarrow> now - sent < int (throttleMinutes config) * 60 * 1000"
    by (simp add: shouldThrottle_configured)
next
  assume "map_of ALERT_CONFIGS alertType = Some config
        \<and> map_of ALERT_CONFIGS alertType' = Some config'
        \<and> (dealId, alertType) \<noteq> (dealId', alertType')"
  then show "shouldThrottle (recordAlertSent h sent dealId alertType) now dealId' alertType'
              = shouldThrottle h now dealId' alertType'"
    using shouldThrottle_other_key by blast
qed

theorem C5_throttle_window_witness:
  "\<not> shouldThrottle clearAlertHistory 5000 ''deal123'' ''SINGLE_THREADED''
   \<and> shouldThrottle (recordAlertSent clearAlertHistory 1000 ''deal123'' ''SINGLE_THREADED'')
        1000 ''deal123'' ''SINGLE_THREADED''
   \<and> shouldThrottle (recordAlertSent clearAlertHistory 1000 ''deal123'' ''SINGLE_THREADED'')
        86400999 ''deal123'' ''SINGLE_THREADED''
   \<and> shouldThrottle (recordAlertSent clearAlertHistory 1000 ''deal123'' ''SINGLE_THREADED'')
        5000 ''deal123'' ''SCORE_DROPPED''
      = shouldThrottle clearAlertHistory 5000 ''deal123'' ''SCORE_DROPPED''"
  using C5_throttle_window [where h = clearAlertHistory and dealId = "''deal123''"
      and alertType = "''SINGLE_THREADED''" and sent = 1000 and now = 86400999
      and config = "\<lparr> severity = ''HIGH'', color = ''#f2545b'', throttleMinutes = 1440 \<rparr>"
      and dealId' = "''deal123''" and alertType' = "''SCORE_DROPPED''"
      and config' = "\<lparr> severity = ''MEDIUM'', color = ''#f5c26b'', throttleMinutes = 480 \<rparr>"]
    C5_throttle_window [where h = clearAlertHistory and dealId = "''deal123''"
      and alertType = "''SINGLE_THREADED''" and sent = 1000 and now = 5000
      and config = "\<lparr> severity = ''HIGH'', color = ''#f2545b'', throttleMinutes = 1440 \<rparr>"
      and dealId' = "''deal123''" and alertType' = "''SCORE_DROPPED''"
      and config' = "\<lparr> severity = ''MEDIUM'', color = ''#f5c26b'', throttleMinutes = 480 \<rparr>"]
  by (simp add: ALERT_CONFIGS_def clearAlertHistory_def)

text \<open>
  Outside the configured types the keys of two different pairs can be equal, since an
  alert type may then hold a hyphen.
\<close>

lemma throttle_keys_of_other_types_coincide:
  "throttleKey ''d-x'' ''SINGLE_THREADED'' = throttleKey ''d'' ''x-SINGLE_THREADED''"
  by (simp add: throttleKey_def)

subsection \<open>Alert types without a configuration\<close>

text \<open>
  For an alert type that is neither configured nor the name of a member of
  \<open>Object.prototype\<close> the cool-down is 60 minutes.
\<close>

lemma shouldThrottle_default_cooldown:
  assumes "getProperty ALERT_CONFIGS t = Undefined"
  shows "shouldThrottle h now d t
           \<longleftrightarrow> (\<exists>sent. h (throttleKey d t) = Some sent \<and> sent \<noteq> 0 \<and> now - sent < 60 * 60 * 1000)"
  using assms by (auto simp: shouldThrottle_def throttleMs_def Let_def)

text \<open>
  Claim C10. For any alert type with no entry in \<open>ALERT_CONFIGS\<close>, \<open>shouldThrottle\<close>
  applies a cool-down of 60 minutes: it is true if and only if a send for the same key was
  recorded less than 60 minutes earlier. The code does not do this for the alert type
  \<open>constructor\<close>, which has no entry: \<open>ALERT_CONFIGS['constructor']\<close> is the inherited
  member, the fallback of \<open>||\<close> is not taken, \<open>throttleMinutes\<close> is \<open>undefined\<close>, and one
  millisecond after a send \<open>shouldThrottle\<close> is false.
\<close>

theorem C10_inherited_name_never_throttled:
  "map_of ALERT_CONFIGS ''constructor'' = None
   \<and> recordAlertSent clearAlertHistory 1000 ''deal1'' ''constructor''
        (throttleKey ''deal1'' ''constructor'') = Some 1000
   \<and> \<not> shouldThrottle (recordAlertSent clearAlertHistory 1000 ''deal1'' ''constructor'')
          1001 ''deal1'' ''constructor''"
  by (simp add: shouldThrottle_def recordAlertSent_def throttleMs_def getProperty_def
        ALERT_CONFIGS_def objectPrototypeNames_def Let_def)

section \<open>Properties of the risk prediction service\<close>

subsection \<open>The decreasing engagement factor\<close>

lemma addFactor_keeps: "set (fst acc) \<subseteq> set (fst (addFactor c n i acc))"
  by (auto simp: addFactor_def)

lemma addFactor_grows: "snd acc \<le> snd (addFactor c n i acc)"
  by (simp add: addFactor_def)

text \<open>A drop of more than 20 points adds the factor and its 30 points.\<close>

lemma decreasing_engagement_below_threshold:
  assumes "previousEngagementScore h = Some p" "orInt (ch_engagementScore ch) 0 - p < -20"
  shows "\<lparr> factor = ''Decreasing Engagement'', riskContribution = 30 \<rparr>
           \<in> set (factors (predictChampionChurn (Some ch) h))
         \<and> 30 \<le> riskScore (predictChampionChurn (Some ch) h)"
proof -
  let ?a1 = "addFactor (case responseRate h of None \<Rightarrow> False
                 | Some rate \<Rightarrow> rate < threshold lowResponseRate)
                ''Low Response Rate'' lowResponseRate ([], 0)"
  let ?a2 = "addFactor True ''Decreasing Engagement'' decreasingEngagement ?a1"
  let ?a3 = "addFactor (of_int (withDefault (missedMeetings h) 0) \<ge> threshold missedMeetingsIndicator)
                ''Missed Meetings'' missedMeetingsIndicator ?a2"
  let ?a4 = "addFactor (case daysSinceLastContact h of None \<Rightarrow> False
                 | Some days \<Rightarrow> of_int days \<ge> threshold noRecentContact)
                ''No Recent Contact'' noRecentContact ?a3"
  have c: "(of_int (orInt (ch_engagementScore ch) 0 - p) :: rat) < threshold decreasingEngagement"
    using assms(2) by (simp add: decreasingEngagement_def)
  have r: "factors (predictChampionChurn (Some ch) h) = fst ?a4"
          "riskScore (predictChampionChurn (Some ch) h) = snd ?a4"
    using assms(1) c by (simp_all add: predictChampionChurn_def Let_def)
  have "\<lparr> factor = ''Decreasing Engagement'', riskContribution = 30 \<rparr> \<in> set (fst ?a2)"
    by (simp add: addFactor_def decreasingEngagement_def)
  then have m: "\<lparr> factor = ''Decreasing Engagement'', riskContribution = 30 \<rparr> \<in> set (fst ?a4)"
    using addFactor_keeps by blast
  have "30 \<le> snd ?a2"
    by (simp add: addFactor_def decreasingEngagement_def)
  also have "\<dots> \<le> snd ?a3" by (rule addFactor_grows)
  also have "\<dots> \<le> snd ?a4" by (rule addFactor_grows)
  finally show ?thesis using m r by simp
qed

text \<open>
  Claim C4. In \<open>predictChampionChurn\<close>, whenever the history supplies a
  \<open>previousEngagementScore\<close> and the champion's engagement change (current score minus
  previous score) is less than or equal to -20 points, the Decreasing Engagement factor
  contributes 30 to the risk score. The code compares with \<open><\<close>: for a champion with the
  score 50 and the previous score 70 the change is -20, no factor is recorded and the risk
  score is 0.
\<close>

theorem C4_drop_of_exactly_20_not_counted:
  "orInt (ch_engagementScore
       \<lparr> ch_engagements = None, ch_engagementScore = Some 50, ch_jobtitle = None,
         ch_jobTitle = None \<rparr>) 0 - 70 = -20
   \<and> riskScore (predictChampionChurn
       (Some \<lparr> ch_engagements = None, ch_engagementScore = Some 50, ch_jobtitle = None,
               ch_jobTitle = None \<rparr>)
       \<lparr> responseRate = None, previousEngagementScore = Some 70, missedMeetings = None,
         daysSinceLastContact = None \<rparr>) = 0
   \<and> factors (predictChampionChurn
       (Some \<lparr> ch_engagements = None, ch_engagementScore = Some 50, ch_jobtitle = None,
               ch_jobTitle = None \<rparr>)
       \<lparr> responseRate = None, previousEngagementScore = Some 70, missedMeetings = None,
         daysSinceLastContact = None \<rparr>) = []"
  by (simp add: predictChampionChurn_def addFactor_def Let_def withDefault_def orInt_def
        decreasingEngagement_def missedMeetingsIndicator_def)

subsection \<open>Stage velocity\<close>

text \<open>Without a usable date of entry the function reports that it cannot tell.\<close>

lemma stage_velocity_without_date:
  assumes "dealOpt = None
           \<or> (\<exists>d. dealOpt = Some d \<and> hs_date_entered_currentstage d \<in> {NoDate, InvalidDate})"
  shows "analyzeStageVelocity now dealOpt =
           \<lparr> isStuck = False, isSlowing = None, daysInStage = None, sv_benchmark = None,
             currentStage = None, status = None,
             sv_recommendation = ''Unable to determine stage duration'' \<rparr>"
  using assms by (auto simp: analyzeStageVelocity_def Let_def)

text \<open>
  With a date of entry, and a stage that is not the name of a member of
  \<open>Object.prototype\<close>, the status follows the benchmark of the stage, or 21 and 45 days
  for a stage that the table does not list.
\<close>

lemma stage_velocity_with_date:
  assumes "hs_date_entered_currentstage d = ValidDate t"
    and "stage = orString (dealstage d) ''unknown''"
    and "stage \<notin> set objectPrototypeNames"
    and "b = (case map_of STAGE_VELOCITY_BENCHMARKS stage of
                Some listed \<Rightarrow> listed | None \<Rightarrow> \<lparr> expectedDays = 21, maxDays = 45 \<rparr>)"
    and "days = (now - t) div 86400000"
  shows "daysInStage (analyzeStageVelocity now (Some d)) = Some days
     \<and> isStuck (analyzeStageVelocity now (Some d)) = (days > maxDays b)
     \<and> status (analyzeStageVelocity now (Some d)) =
          Some (if days > maxDays b then ''STUCK''
                else if days > expectedDays b then ''SLOWING'' else ''ON_TRACK'')"
  using assms
  by (simp add: analyzeStageVelocity_def Let_def getProperty_def greaterThan_def
        benchmarkField_def split: option.splits)

text \<open>
  Claim C7. \<open>analyzeStageVelocity\<close> returns \<open>isStuck = false\<close>, \<open>daysInStage = null\<close> and
  the recommendation that it is unable to determine the duration whenever the date of
  entry is missing or cannot be parsed; otherwise the status is STUCK exactly when the
  days in the stage exceed \<open>maxDays\<close>, SLOWING when they exceed \<open>expectedDays\<close> only, and
  ON_TRACK otherwise, with 21 and 45 days for a stage absent from the benchmark table.
  The code does not do the last for the stage \<open>constructor\<close>, which the table does not
  list: \<open>STAGE_VELOCITY_BENCHMARKS['constructor']\<close> is the inherited member, the fallback
  of \<open>||\<close> is not taken, both limits are \<open>undefined\<close>, and a deal that has been in the
  stage for 100 days is reported ON_TRACK and not stuck.
\<close>

theorem C7_inherited_stage_never_stuck:
  "map_of STAGE_VELOCITY_BENCHMARKS ''constructor'' = None
   \<and> daysInStage (analyzeStageVelocity (100 * 86400000)
        (Some \<lparr> dealstage = Some ''constructor'',
                hs_date_entered_currentstage = ValidDate 0 \<rparr>)) = Some 100
   \<and> status (analyzeStageVelocity (100 * 86400000)
        (Some \<lparr> dealstage = Some ''constructor'',
                hs_date_entered_currentstage = ValidDate 0 \<rparr>)) = Some ''ON_TRACK''
   \<and> isStuck (analyzeStageVelocity (100 * 86400000)
        (Some \<lparr> dealstage = Some ''constructor'',
                hs_date_entered_currentstage = ValidDate 0 \<rparr>)) = False"
  by (simp add: analyzeStageVelocity_def Let_def orString_def getProperty_def
        STAGE_VELOCITY_BENCHMARKS_def objectPrototypeNames_def greaterThan_def
        benchmarkField_def)

section \<open>Properties of the lifecycle tracker\<close>

subsection \<open>The two maps\<close>

lemma foldl_update_keys:
  "fst ` set (foldl (\<lambda>m kv. AList.update (fst kv) (snd kv) m) m es) = fst ` set m \<union> fst ` set es"
  by (induction es arbitrary: m) (auto simp: AList.dom_update)

lemma foldl_update_distinct:
  "distinct (map fst m) \<Longrightarrow> distinct (map fst (foldl (\<lambda>m kv. AList.update (fst kv) (snd kv) m) m es))"
  by (induction es arbitrary: m) (auto simp: AList.distinct_update)

lemma contactMap_keys:
  "fst ` set (contactMap cs) = {k. \<exists>c \<in> set cs. getContactId c = Some k}"
  by (force simp: contactMap_def newMap_def foldl_update_keys image_iff)

lemma contactMap_distinct: "distinct (map fst (contactMap cs))"
  by (simp add: contactMap_def newMap_def foldl_update_distinct)

lemma map_of_contactMap_None:
  "map_of (contactMap cs) k = None \<longleftrightarrow> \<not> (\<exists>c \<in> set cs. getContactId c = Some k)"
  using contactMap_keys [of cs] by (auto simp: map_of_eq_None_iff)

lemma engagementChanges_no_removed:
  "filter (\<lambda>c. removedId c = Some k) (fst (engagementChanges pm e)) = []"
  by (simp add: engagementChanges_def Let_def split: option.splits)

lemma concat_engagement_no_removed:
  "filter (\<lambda>c. removedId c = Some k) (concat (map (fst \<circ> engagementChanges pm) es)) = []"
  by (induction es) (simp_all add: engagementChanges_no_removed)

lemma removed_count:
  "distinct (map fst pm) \<Longrightarrow>
   length (filter (\<lambda>c. removedId c = Some k) (concat (map (removedChanges cm) pm)))
     = (if k \<in> fst ` set pm \<and> map_of cm k = None then 1 else 0)"
proof (induction pm)
  case Nil
  then show ?case by simp
next
  case (Cons e pm)
  then show ?case
    by (cases e) (auto simp: removedChanges_def Let_def image_iff)
qed

lemma engagement_ids:
  "Some k \<in> engagementChangeId ` set (concat (map (fst \<circ> engagementChanges pm) cm)) \<Longrightarrow> k \<in> fst ` set cm"
  by (induction cm) (auto simp: engagementChanges_def Let_def image_iff split: option.splits if_splits)

lemma new_ids:
  "Some k \<in> newStakeholderId ` set (concat (map (fst \<circ> engagementChanges pm) cm)) \<Longrightarrow> k \<in> fst ` set cm"
  by (induction cm) (auto simp: engagementChanges_def Let_def image_iff split: option.splits if_splits)

lemma changes_of_tracker:
  "changes (trackStakeholderLifecycle now cur (Some prev)) =
     concat (map (fst \<circ> engagementChanges (contactMap (withDefault (sn_contacts prev) [])))
                 (contactMap (withDefault (sn_contacts cur) [])))
     @ concat (map (removedChanges (contactMap (withDefault (sn_contacts cur) [])))
                   (contactMap (withDefault (sn_contacts prev) [])))
     @ (if \<bar>orInt (sn_overallScore cur) 0 - orInt (sn_overallScore prev) 0\<bar> \<ge> 10
        then [SCORE_CHANGE (sn_overallScore prev) (sn_overallScore cur)
                (orInt (sn_overallScore cur) 0 - orInt (sn_overallScore prev) 0)]
        else [])
     @ (if orInt (sn_threadDepth cur) 0 - orInt (sn_threadDepth prev) 0 \<noteq> 0
        then [DEPTH_CHANGE (sn_threadDepth prev) (sn_threadDepth cur)
                (orInt (sn_threadDepth cur) 0 - orInt (sn_threadDepth prev) 0)]
        else [])"
  by (simp add: trackStakeholderLifecycle_def Let_def)

subsection \<open>Removed stakeholders\<close>

text \<open>
  As claim C6 states it, every contact of the previous snapshot that the current
  snapshot lacks is reported as removed. A contact of the previous snapshot with neither
  \<open>contactId\<close> nor \<open>id\<close> nor \<open>email\<close> is dropped by the filter in front of the map, and
  with an empty current snapshot nothing is reported for it.
\<close>

theorem C6_contact_without_identifier_not_reported:
  "changes (trackStakeholderLifecycle 0
      \<lparr> sn_contacts = Some [], sn_overallScore = Some 50, sn_threadDepth = Some 1 \<rparr>
      (Some \<lparr> sn_contacts = Some
          [\<lparr> sc_contactId = None, sc_id = None, sc_email = None, sc_name = Some ''Ann'',
             sc_role = Some ''CHAMPION'', sc_effectiveRole = None,
             sc_engagementScore = Some 50, sc_lastEngagementDate = NoDate \<rparr>],
          sn_overallScore = Some 50, sn_threadDepth = Some 1 \<rparr>)) = []"
  by code_simp

text \<open>
  Claim C6, amended. For every pair of snapshots and every contact identifier
  (\<open>contactId\<close>, else \<open>id\<close>, else \<open>email\<close>): the changes hold exactly one
  STAKEHOLDER_REMOVED entry for the identifier when a contact of the previous snapshot
  has it and no contact of the current snapshot has it, and none otherwise; and no
  identifier is reported both as removed and as an engagement change, nor both as removed
  and as a new stakeholder. Contacts without an identifier are not reported.
\<close>

theorem C6_removed_exactly_once:
  "length (filter (\<lambda>c. removedId c = Some k)
             (changes (trackStakeholderLifecycle now cur (Some prev))))
     = (if k \<in> contactIds prev \<and> k \<notin> contactIds cur then 1 else 0)
   \<and> \<not> (Some k \<in> removedId ` set (changes (trackStakeholderLifecycle now cur (Some prev)))
         \<and> Some k \<in> engagementChangeId `
               set (changes (trackStakeholderLifecycle now cur (Some prev))))
   \<and> \<not> (Some k \<in> removedId ` set (changes (trackStakeholderLifecycle now cur (Some prev)))
         \<and> Some k \<in> newStakeholderId `
               set (changes (trackStakeholderLifecycle now cur (Some prev))))"
proof -
  let ?cs = "withDefault (sn_contacts cur) []" and ?ps = "withDefault (sn_contacts prev) []"
  let ?cm = "contactMap ?cs" and ?pm = "contactMap ?ps"
  let ?A = "concat (map (fst \<circ> engagementChanges ?pm) ?cm)"
  let ?R = "concat (map (removedChanges ?cm) ?pm)"
  let ?r = "trackStakeholderLifecycle now cur (Some prev)"
  have keys_c: "k \<in> fst ` set ?cm \<longleftrightarrow> k \<in> contactIds cur"
    by (simp add: contactMap_keys contactIds_def)
  have keys_p: "k \<in> fst ` set ?pm \<longleftrightarrow> k \<in> contactIds prev"
    by (simp add: contactMap_keys contactIds_def)
  have none_c: "map_of ?cm k = None \<longleftrightarrow> k \<notin> contactIds cur"
    by (simp add: map_of_contactMap_None contactIds_def)
  have count: "length (filter (\<lambda>c. removedId c = Some k) (changes ?r))
                 = length (filter (\<lambda>c. removedId c = Some k) ?R)"
    by (simp add: changes_of_tracker concat_engagement_no_removed)
  have one: "length (filter (\<lambda>c. removedId c = Some k) (changes ?r))
                 = (if k \<in> contactIds prev \<and> k \<notin> contactIds cur then 1 else 0)"
    unfolding count using removed_count [OF contactMap_distinct, of k ?cm ?ps]
    by (simp add: keys_p none_c)
  have rem: "k \<notin> contactIds cur" if "Some k \<in> removedId ` set (changes ?r)"
  proof -
    from that have "filter (\<lambda>c. removedId c = Some k) (changes ?r) \<noteq> []"
      by (auto simp: filter_empty_conv)
    then have "length (filter (\<lambda>c. removedId c = Some k) (changes ?r)) \<noteq> 0" by simp
    with one show ?thesis by (auto split: if_splits)
  qed
  have eng: "k \<in> contactIds cur" if "Some k \<in> engagementChangeId ` set (changes ?r)"
  proof -
    from that have "Some k \<in> engagementChangeId ` set ?A"
      by (auto simp: changes_of_tracker removedChanges_def Let_def split: if_splits)
    then show ?thesis using engagement_ids [of k ?pm ?cm] keys_c by simp
  qed
  have new: "k \<in> contactIds cur" if "Some k \<in> newStakeholderId ` set (changes ?r)"
  proof -
    from that have "Some k \<in> newStakeholderId ` set ?A"
      by (auto simp: changes_of_tracker removedChanges_def Let_def split: if_splits)
    then show ?thesis using new_ids [of k ?pm ?cm] keys_c by simp
  qed
  from one rem eng new show ?thesis by blast
qed

theorem C6_removed_exactly_once_witness:
  "length (filter (\<lambda>c. removedId c = Some ''1'')
     (changes (trackStakeholderLifecycle 0
      \<lparr> sn_contacts = Some
          [\<lparr> sc_contactId = Some ''2'', sc_id = None, sc_email = None, sc_name = Some ''Bob'',
             sc_role = Some ''CHAMPION'', sc_effectiveRole = None,
             sc_engagementScore = Some 10, sc_lastEngagementDate = NoDate \<rparr>],
        sn_overallScore = Some 50, sn_threadDepth = Some 1 \<rparr>
      (Some \<lparr> sn_contacts = Some
          [\<lparr> sc_contactId = Some ''1'', sc_id = None, sc_email = None, sc_name = Some ''Ann'',
             sc_role = None, sc_effectiveRole = None, sc_engagementScore = Some 50,
             sc_lastEngagementDate = NoDate \<rparr>,
           \<lparr> sc_contactId = None, sc_id = Some ''2'', sc_email = None, sc_name = Some ''Bob'',
             sc_role = Some ''CHAMPION'', sc_effectiveRole = None,
             sc_engagementScore = Some 50, sc_lastEngagementDate = NoDate \<rparr>],
          sn_overallScore = Some 50, sn_threadDepth = Some 2 \<rparr>)))) = 1"
  using C6_removed_exactly_once [of "''1''" 0
      "\<lparr> sn_contacts = Some
          [\<lparr> sc_contactId = Some ''2'', sc_id = None, sc_email = None, sc_name = Some ''Bob'',
             sc_role = Some ''CHAMPION'', sc_effectiveRole = None,
             sc_engagementScore = Some 10, sc_lastEngagementDate = NoDate \<rparr>],
        sn_overallScore = Some 50, sn_threadDepth = Some 1 \<rparr>"
      "\<lparr> sn_contacts = Some
          [\<lparr> sc_contactId = Some ''1'', sc_id = None, sc_email = None, sc_name = Some ''Ann'',
             sc_role = None, sc_effectiveRole = None, sc_engagementScore = Some 50,
             sc_lastEngagementDate = NoDate \<rparr>,
           \<lparr> sc_contactId = None, sc_id = Some ''2'', sc_email = None, sc_name = Some ''Bob'',
             sc_role = Some ''CHAMPION'', sc_effectiveRole = None,
             sc_engagementScore = Some 50, sc_lastEngagementDate = NoDate \<rparr>],
          sn_overallScore = Some 50, sn_threadDepth = Some 2 \<rparr>"]
  by (simp add: contactIds_def withDefault_def getContactId_def firstTruthy_def)

section \<open>Properties of the champion strength\<close>

subsection \<open>Auxiliary facts\<close>

lemma factor_names_tested:
  "stringIncludes ''Responsiveness'' ''Responsiveness''"
  "stringIncludes ''Responsiveness (estimated)'' ''Responsiveness''"
  "\<not> stringIncludes ''Advocacy'' ''Responsiveness''"
  "\<not> stringIncludes ''Meeting Attendance'' ''Responsiveness''"
  "\<not> stringIncludes ''Meeting Participation'' ''Responsiveness''"
  "\<not> stringIncludes ''Influence Level'' ''Responsiveness''"
  "\<not> stringIncludes ''Responsiveness'' ''Meeting''"
  "\<not> stringIncludes ''Responsiveness (estimated)'' ''Meeting''"
  "\<not> stringIncludes ''Advocacy'' ''Meeting''"
  "stringIncludes ''Meeting Attendance'' ''Meeting''"
  "stringIncludes ''Meeting Participation'' ''Meeting''"
  "\<not> stringIncludes ''Influence Level'' ''Meeting''"
  by simp_all

lemma factors_shape:
  "\<exists>n1 s1 s2 n3 s3 s4.
     sf_factors (calculateChampionStrength (Some ch) opts) =
       [\<lparr> sf_name = n1, sf_score = s1, maxScore = 25 \<rparr>,
        \<lparr> sf_name = ''Advocacy'', sf_score = s2, maxScore = 25 \<rparr>,
        \<lparr> sf_name = n3, sf_score = s3, maxScore = 25 \<rparr>,
        \<lparr> sf_name = ''Influence Level'', sf_score = s4, maxScore = 25 \<rparr>]
     \<and> n1 \<in> {''Responsiveness'', ''Responsiveness (estimated)''}
     \<and> n3 \<in> {''Meeting Attendance'', ''Meeting Participation''}"
  by (simp add: calculateChampionStrength_def Let_def split: option.splits)

lemma recommendation_iff:
  "x \<in> set (recommendations (calculateChampionStrength (Some ch) opts)) \<longleftrightarrow>
     (x = ''Improve communication frequency with champion''
        \<and> findLow (\<lambda>n. stringIncludes n ''Responsiveness'')
             (sf_factors (calculateChampionStrength (Some ch) opts)))
   \<or> (x = ''Provide champion with compelling content to share internally''
        \<and> findLow (\<lambda>n. n = ''Advocacy'') (sf_factors (calculateChampionStrength (Some ch) opts)))
   \<or> (x = ''Increase meeting frequency with champion''
        \<and> findLow (\<lambda>n. stringIncludes n ''Meeting'')
             (sf_factors (calculateChampionStrength (Some ch) opts)))
   \<or> (x = ''Consider identifying an additional or alternative champion''
        \<and> reliability (calculateChampionStrength (Some ch) opts) = ''WEAK'')
   \<or> (x = ''Champion is performing well - maintain current engagement''
       \<and> \<not> findLow (\<lambda>n. stringIncludes n ''Responsiveness'')
              (sf_factors (calculateChampionStrength (Some ch) opts))
       \<and> \<not> findLow (\<lambda>n. n = ''Advocacy'') (sf_factors (calculateChampionStrength (Some ch) opts))
       \<and> \<not> findLow (\<lambda>n. stringIncludes n ''Meeting'')
              (sf_factors (calculateChampionStrength (Some ch) opts))
       \<and> reliability (calculateChampionStrength (Some ch) opts) \<noteq> ''WEAK'')"
  by (auto simp add: calculateChampionStrength_def Let_def)

subsection \<open>Recommendations for low sub-scores\<close>

text \<open>
  As claim C8 states it, each of the four sub-scores below 15 gets a targeted
  recommendation. A champion with the title Engineer has the influence score 10; with the
  other three sub-scores at 25 the only recommendation is that the champion is
  performing well.
\<close>

theorem C8_low_influence_without_recommendation:
  "sf_factors (calculateChampionStrength
      (Some \<lparr> ch_engagements = Some \<lparr> emails = Some 10, meetings = Some 5, calls = Some 5,
                                      totalCount = Some 20 \<rparr>,
              ch_engagementScore = None, ch_jobtitle = Some ''Engineer'', ch_jobTitle = None \<rparr>)
      \<lparr> so_responseRate = Some 1, advocacyIndicators = Some [''a'', ''b'', ''c'', ''d''],
        meetingAttendance = Some 1 \<rparr>)
    = [\<lparr> sf_name = ''Responsiveness'', sf_score = Num 25, maxScore = 25 \<rparr>,
       \<lparr> sf_name = ''Advocacy'', sf_score = Num 25, maxScore = 25 \<rparr>,
       \<lparr> sf_name = ''Meeting Attendance'', sf_score = Num 25, maxScore = 25 \<rparr>,
       \<lparr> sf_name = ''Influence Level'', sf_score = Num 10, maxScore = 25 \<rparr>]
   \<and> recommendations (calculateChampionStrength
      (Some \<lparr> ch_engagements = Some \<lparr> emails = Some 10, meetings = Some 5, calls = Some 5,
                                      totalCount = Some 20 \<rparr>,
              ch_engagementScore = None, ch_jobtitle = Some ''Engineer'', ch_jobTitle = None \<rparr>)
      \<lparr> so_responseRate = Some 1, advocacyIndicators = Some [''a'', ''b'', ''c'', ''d''],
        meetingAttendance = Some 1 \<rparr>)
    = [''Champion is performing well - maintain current engagement'']"
  by code_simp

text \<open>
  Claim C8, amended. For every champion, \<open>calculateChampionStrength\<close> returns the four
  factors responsiveness, advocacy, meeting attendance and influence in this order, and
  emits the targeted recommendation of each of the first three exactly when the score it
  reports for that factor is a number below 15 (for a response or attendance rate the
  reported score is the rounded one); every recommendation it returns is one of these
  three, the one for a weak champion, or the one for a champion performing well, so the
  influence score has no recommendation of its own.
\<close>

theorem C8_low_subscore_recommendations:
  "(let r = calculateChampionStrength (Some ch) opts; fs = sf_factors r
    in length fs = 4
       \<and> sf_name (fs ! 0) \<in> {''Responsiveness'', ''Responsiveness (estimated)''}
       \<and> sf_name (fs ! 1) = ''Advocacy''
       \<and> sf_name (fs ! 2) \<in> {''Meeting Attendance'', ''Meeting Participation''}
       \<and> sf_name (fs ! 3) = ''Influence Level''
       \<and> (numLess (sf_score (fs ! 0)) 15
            \<longleftrightarrow> ''Improve communication frequency with champion'' \<in> set (recommendations r))
       \<and> (numLess (sf_score (fs ! 1)) 15
            \<longleftrightarrow> ''Provide champion with compelling content to share internally''
                  \<in> set (recommendations r))
       \<and> (numLess (sf_score (fs ! 2)) 15
            \<longleftrightarrow> ''Increase meeting frequency with champion'' \<in> set (recommendations r))
       \<and> set (recommendations r) \<subseteq>
            {''Improve communication frequency with champion'',
             ''Provide champion with compelling content to share internally'',
             ''Increase meeting frequency with champion'',
             ''Consider identifying an additional or alternative champion'',
             ''Champion is performing well - maintain current engagement''})"
proof -
  let ?r = "calculateChampionStrength (Some ch) opts"
  obtain n1 s1 s2 n3 s3 s4 where
    fs: "sf_factors ?r =
       [\<lparr> sf_name = n1, sf_score = s1, maxScore = 25 \<rparr>,
        \<lparr> sf_name = ''Advocacy'', sf_score = s2, maxScore = 25 \<rparr>,
        \<lparr> sf_name = n3, sf_score = s3, maxScore = 25 \<rparr>,
        \<lparr> sf_name = ''Influence Level'', sf_score = s4, maxScore = 25 \<rparr>]"
    and n1: "n1 \<in> {''Responsiveness'', ''Responsiveness (estimated)''}"
    and n3: "n3 \<in> {''Meeting Attendance'', ''Meeting Participation''}"
    using factors_shape [of ch opts] by blast
  have t1: "stringIncludes n1 ''Responsiveness''" "\<not> stringIncludes n3 ''Responsiveness''"
           "\<not> stringIncludes n1 ''Meeting''" "stringIncludes n3 ''Meeting''"
           "n1 \<noteq> ''Advocacy''" "n3 \<noteq> ''Advocacy''"
    using n1 n3 by auto
  have low1: "findLow (\<lambda>n. stringIncludes n ''Responsiveness'') (sf_factors ?r) \<longleftrightarrow> numLess s1 15"
    using t1 by (simp add: findLow_def fs)
  have low2: "findLow (\<lambda>n. n = ''Advocacy'') (sf_factors ?r) \<longleftrightarrow> numLess s2 15"
    using t1 by (auto simp add: findLow_def fs)
  have low3: "findLow (\<lambda>n. stringIncludes n ''Meeting'') (sf_factors ?r) \<longleftrightarrow> numLess s3 15"
    using t1 by (simp add: findLow_def fs)
  have r1: "''Improve communication frequency with champion'' \<in> set (recommendations ?r)
              \<longleftrightarrow> numLess s1 15"
    by (simp add: recommendation_iff low1)
  have r2: "''Provide champion with compelling content to share internally''
              \<in> set (recommendations ?r) \<longleftrightarrow> numLess s2 15"
    by (simp add: recommendation_iff low2)
  have r3: "''Increase meeting frequency with champion'' \<in> set (recommendations ?r)
              \<longleftrightarrow> numLess s3 15"
    by (simp add: recommendation_iff low3)
  have sub: "set (recommendations ?r) \<subseteq>
            {''Improve communication frequency with champion'',
             ''Provide champion with compelling content to share internally'',
             ''Increase meeting frequency with champion'',
             ''Consider identifying an additional or alternative champion'',
             ''Champion is performing well - maintain current engagement''}"
  proof
    fix x
    assume "x \<in> set (recommendations ?r)"
    then show "x \<in> {''Improve communication frequency with champion'',
             ''Provide champion with compelling content to share internally'',
             ''Increase meeting frequency with champion'',
             ''Consider identifying an additional or alternative champion'',
             ''Champion is performing well - maintain current engagement''}"
      unfolding recommendation_iff [of x ch opts] insert_iff
      by (elim disjE conjE) (simp_all only: simp_thms)
  qed
  show ?thesis
    unfolding Let_def using n1 n3 r1 r2 r3 sub by (simp add: fs)
qed

theorem C8_low_subscore_recommendations_witness:
  "''Increase meeting frequency with champion'' \<in> set (recommendations
     (calculateChampionStrength
        (Some \<lparr> ch_engagements = Some \<lparr> emails = Some 4, meetings = Some 1, calls = Some 0,
                                        totalCount = Some 5 \<rparr>,
                ch_engagementScore = None, ch_jobtitle = Some ''VP of Operations'',
                ch_jobTitle = None \<rparr>)
        \<lparr> so_responseRate = Some 0.9, advocacyIndicators = Some [''a'', ''b''],
          meetingAttendance = None \<rparr>))"
proof -
  let ?ch = "\<lparr> ch_engagements = Some \<lparr> emails = Some 4, meetings = Some 1, calls = Some 0,
                                      totalCount = Some 5 \<rparr>,
              ch_engagementScore = None, ch_jobtitle = Some ''VP of Operations'',
              ch_jobTitle = None \<rparr>"
  let ?o = "\<lparr> so_responseRate = Some 0.9, advocacyIndicators = Some [''a'', ''b''],
        meetingAttendance = None \<rparr>"
  have e: "sf_score (sf_factors (calculateChampionStrength (Some ?ch) ?o) ! 2) = Num 5"
    by code_simp
  from C8_low_subscore_recommendations [of ?ch ?o] e show ?thesis
    by (simp add: Let_def numLess_def)
qed

end
